theory Spec2Isabelle
  imports Main "HOL-Library.Word" "HOL-Library.Sublist"
begin

unbundle bit_operations_syntax

section \<open>The ODBC connection layer (connection.cpp)\<close>

subsection \<open>Bytes and the protocol header\<close>

text \<open>
  \<open>int8_t\<close> is an 8-bit word and \<open>int32_t\<close> a 32-bit word read in two's complement
  by \<open>sint\<close>. \<open>OdbcProtocolHeader\<close> is a packed struct of one \<open>int32_t len\<close>; the code
  writes and reads it through \<open>reinterpret_cast\<close>, that is in the byte order of the
  machine. The model fixes the little-endian layout of the platforms the driver is built
  for.
\<close>

type_synonym byte = "8 word"
type_synonym int32 = "32 word"

definition header_bytes :: "int32 \<Rightarrow> byte list" where
  "header_bytes w = [ucast w, ucast (drop_bit 8 w), ucast (drop_bit 16 w), ucast (drop_bit 24 w)]"

fun header_len :: "byte list \<Rightarrow> int32" where
  "header_len [b0, b1, b2, b3] =
     (ucast b0 OR push_bit 8 (ucast b1) OR push_bit 16 (ucast b2) OR push_bit 24 (ucast b3))"
| "header_len _ = 0"

definition sizeof_header :: nat where
  "sizeof_header = 4"

subsection \<open>Status codes, results, exceptions\<close>

datatype sql_state =
    S01S00_INVALID_CONNECTION_STRING_ATTRIBUTE
  | S08001_CANNOT_CONNECT
  | S08002_ALREADY_CONNECTED
  | S08003_NOT_CONNECTED
  | S08004_CONNECTION_REJECTED
  | S08S01_LINK_FAILURE
  | SHY000_GENERAL_ERROR
  | SHY001_MEMORY_ALLOCATION
  | SHY092_OPTION_TYPE_OUT_OF_RANGE
  | SHYC00_OPTIONAL_FEATURE_NOT_IMPLEMENTED

datatype sql_result = AI_SUCCESS | AI_SUCCESS_WITH_INFO | AI_ERROR

text \<open>
  What a call can throw. \<open>OdbcError\<close> and \<open>IgniteError\<close> are the two classes the file
  throws and catches. \<open>BadAlloc\<close> and \<open>BufferOverrun\<close> are the two ways in which
  \<open>Send\<close> leaves its normal path when the narrowed 32-bit size of the frame no longer
  equals the real size (see \<open>Send\<close>).
\<close>

datatype exn =
    OdbcError sql_state string
  | IgniteError string
  | BadAlloc
  | BufferOverrun

record status_record =
  rec_state :: sql_state
  rec_message :: string
  rec_row :: int
  rec_column :: int

definition CreateStatusRecord :: "sql_state \<Rightarrow> string \<Rightarrow> int \<Rightarrow> int \<Rightarrow> status_record" where
  "CreateStatusRecord sqlState message rowNum columnNum =
     \<lparr>rec_state = sqlState, rec_message = message, rec_row = rowNum, rec_column = columnNum\<rparr>"

subsection \<open>The transport socket\<close>

text \<open>
  Modelled from the spec: the socket class (\<open>connect(host, port) -> bool\<close>,
  \<open>send(buffer) -> bytesSentOrNegativeOnError\<close>,
  \<open>receive(buffer) -> bytesReceivedOrNegativeOnError\<close>, \<open>close()\<close>, a blocking byte
  stream with partial transfers) is a collaborator whose code is not in connection.cpp.
  The network's choices are data of the socket: \<open>tx_script\<close> and \<open>rx_script\<close> give,
  for each successive single-shot call, either a value \<open>\<le> 0\<close> (the call returns it: an
  error or a closed stream, nothing is transferred) or a positive bound on the bytes that
  call transfers. A call never transfers more than it was asked for. When a script is
  used up, a send accepts all it is given and a receive delivers all that is asked for
  and available; a receive on an exhausted stream returns 0. \<open>wire_out\<close> collects the
  bytes accepted by the socket, \<open>wire_in\<close> holds the bytes the peer has sent and the
  driver has not read yet; \<open>reachable\<close> lists the hosts and ports that accept a connect.
\<close>

record socket_client =
  is_open :: bool
  reachable :: "(string \<times> nat) list"
  tx_script :: "int list"
  wire_out :: "byte list"
  rx_script :: "int list"
  wire_in :: "byte list"

definition sock_Connect :: "socket_client \<Rightarrow> string \<Rightarrow> nat \<Rightarrow> bool \<times> socket_client" where
  "sock_Connect s host port =
     ((host, port) \<in> set (reachable s), s\<lparr>is_open := (host, port) \<in> set (reachable s)\<rparr>)"

definition sock_Close :: "socket_client \<Rightarrow> socket_client" where
  "sock_Close s = s\<lparr>is_open := False\<rparr>"

definition sock_Send :: "socket_client \<Rightarrow> byte list \<Rightarrow> int \<times> socket_client" where
  "sock_Send s buf =
     (case tx_script s of
        [] \<Rightarrow> (int (length buf), s\<lparr>wire_out := wire_out s @ buf\<rparr>)
      | r # rs \<Rightarrow>
          if r \<le> 0 then (r, s\<lparr>tx_script := rs\<rparr>)
          else (int (min (nat r) (length buf)),
                s\<lparr>tx_script := rs, wire_out := wire_out s @ take (min (nat r) (length buf)) buf\<rparr>))"

definition sock_Receive :: "socket_client \<Rightarrow> nat \<Rightarrow> int \<times> byte list \<times> socket_client" where
  "sock_Receive s n =
     (case rx_script s of
        [] \<Rightarrow> (int (min n (length (wire_in s))), take n (wire_in s),
               s\<lparr>wire_in := drop n (wire_in s)\<rparr>)
      | r # rs \<Rightarrow>
          if r \<le> 0 then (r, [], s\<lparr>rx_script := rs\<rparr>)
          else (int (min (nat r) (min n (length (wire_in s)))),
                take (min (nat r) n) (wire_in s),
                s\<lparr>rx_script := rs, wire_in := drop (min (nat r) n) (wire_in s)\<rparr>))"

subsection \<open>Configuration and connection\<close>

text \<open>
  The configuration class is not in connection.cpp; the connection uses its getters
  only. The getters that \<open>MakeRequestHandshake\<close> calls inside its \<open>try\<close> block can
  throw an \<open>IgniteError\<close>: their value is either the error's text (\<open>Inl\<close>) or the
  parameter read (\<open>Inr\<close>). The protocol version is a type parameter \<open>'v\<close>: the code
  only stores versions, asks \<open>IsSupported\<close> and prints them with \<open>ToString\<close>.
\<close>

record 'v configuration =
  GetHost :: string
  GetTcpPort :: nat
  GetSchema :: string
  GetProtocolVersion :: "string + 'v"
  IsDistributedJoins :: "string + bool"
  IsEnforceJoinOrder :: "string + bool"
  IsReplicatedOnly :: "string + bool"
  IsCollocated :: "string + bool"
  IsLazy :: "string + bool"

text \<open>
  The members of \<open>Connection\<close>: the socket, the \<open>connected\<close> flag, the protocol version
  held by the parser (\<open>parser.SetProtocolVersion\<close>), the configuration, and the
  diagnostic records of the \<open>Diagnosable\<close> base class.
\<close>

record 'v connection =
  socket :: socket_client
  connected :: bool
  parser_version :: 'v
  config :: "'v configuration"
  diagnostics :: "status_record list"

text \<open>
  Modelled from the spec: \<open>AddStatusRecord\<close> belongs to the diagnosable base class, which
  is not in connection.cpp. The diagnostics are an ordered, append-only sequence of
  status records; the record appended is the one \<open>CreateStatusRecord\<close> builds, with
  row and column 0.
\<close>

definition AddStatusRecord :: "sql_state \<Rightarrow> string \<Rightarrow> 'v connection \<Rightarrow> 'v connection" where
  "AddStatusRecord sqlState message c =
     c\<lparr>diagnostics := diagnostics c @ [CreateStatusRecord sqlState message 0 0]\<rparr>"

definition Close :: "'v connection \<Rightarrow> 'v connection" where
  "Close c = c\<lparr>socket := sock_Close (socket c), connected := False\<rparr>"

subsection \<open>Reliable transfer: SendAll and ReceiveAll\<close>

text \<open>
  \<open>SendAll\<close>: \<open>sent\<close> counts the bytes accepted so far; each round offers the rest of the
  buffer to the socket; a result \<open>\<le> 0\<close> closes the connection and returns the count.
  \<open>sent\<close> is a C \<open>int\<close>; \<open>Send\<close> calls \<open>SendAll\<close> with a size below \<open>2 ^ 31\<close>, so it
  does not overflow and is a natural number here.
\<close>

function SendAll_loop :: "'v connection \<Rightarrow> byte list \<Rightarrow> nat \<Rightarrow> nat \<times> 'v connection" where
  "SendAll_loop c data sent =
     (if sent = length data then (sent, c)
      else
        let r = sock_Send (socket c) (drop sent data);
            res = fst r;
            c1 = c\<lparr>socket := snd r\<rparr>
        in if res \<le> 0 then (sent, Close c1)
           else SendAll_loop c1 data (sent + nat res))"
  by pat_completeness auto

termination
proof (relation "measure (\<lambda>(c, data, sent). length data - sent)")
  show "wf (measure (\<lambda>(c :: 'v connection, data :: byte list, sent :: nat). length data - sent))"
    by simp
next
  fix c :: "'v connection" and data :: "byte list" and sent :: nat
    and r :: "int \<times> socket_client" and res :: int and c1 :: "'v connection"
  assume r: "r = sock_Send (socket c) (drop sent data)" and res: "res = fst r" "\<not> res \<le> 0"
  have "res \<le> int (length (drop sent data))"
    unfolding res r by (simp add: sock_Send_def split: list.split)
  with res show "((c1, data, sent + nat res), (c, data, sent))
      \<in> measure (\<lambda>(c, data, sent). length data - sent)"
    by simp
qed

definition SendAll :: "'v connection \<Rightarrow> byte list \<Rightarrow> nat \<times> 'v connection" where
  "SendAll c data = SendAll_loop c data 0"

text \<open>
  \<open>ReceiveAll\<close>: \<open>remain\<close> counts the bytes still missing; each round asks the socket for
  them and stores what arrives at offset \<open>len - remain\<close> of the destination buffer; a
  result \<open>\<le> 0\<close> closes the connection and returns the count received so far. The
  function returns the count, the destination buffer and the connection.
\<close>

function ReceiveAll_loop ::
  "'v connection \<Rightarrow> byte list \<Rightarrow> nat \<Rightarrow> nat \<Rightarrow> nat \<times> byte list \<times> 'v connection" where
  "ReceiveAll_loop c buffer len remain =
     (if remain = 0 then (len, buffer, c)
      else
        let received = len - remain;
            r = sock_Receive (socket c) remain;
            res = fst r;
            c1 = c\<lparr>socket := snd (snd r)\<rparr>
        in if res \<le> 0 then (received, buffer, Close c1)
           else ReceiveAll_loop c1
                  (take received buffer @ fst (snd r) @ drop (received + nat res) buffer)
                  len (remain - nat res))"
  by pat_completeness auto
termination
  by (relation "measure (\<lambda>(c, buffer, len, remain). remain)") auto

definition ReceiveAll :: "'v connection \<Rightarrow> byte list \<Rightarrow> nat \<Rightarrow> nat \<times> byte list \<times> 'v connection" where
  "ReceiveAll c dst len = ReceiveAll_loop c dst len len"

subsection \<open>The frame codec: Send and Receive\<close>

text \<open>
  \<open>Send\<close> narrows \<open>len + sizeof(OdbcProtocolHeader)\<close> to \<open>int32_t\<close> and allocates a
  \<open>FixedSizeArray<int8_t>\<close> of that size, writes \<open>static_cast<int32_t>(len)\<close> into its
  first four bytes and copies the payload behind them. The array class is not in
  connection.cpp: it allocates \<open>new int8_t[newLen]\<close>, which throws for a negative
  length (\<open>BadAlloc\<close>); when the narrowed size is not negative but smaller than the
  real one, \<open>memcpy\<close> writes past the array, which C++ leaves undefined
  (\<open>BufferOverrun\<close>). Both happen only for payloads of \<open>2 ^ 31 - 4\<close> bytes or more.
\<close>

definition Send :: "'v connection \<Rightarrow> byte list \<Rightarrow> (exn + unit) \<times> 'v connection" where
  "Send c data =
     (if \<not> connected c
      then (Inl (OdbcError S08003_NOT_CONNECTED ''Connection is not established''), c)
      else
        let len = length data;
            newLen = (word_of_nat (len + sizeof_header) :: int32)
        in if sint newLen < 0 then (Inl BadAlloc, c)
           else if nat (sint newLen) < sizeof_header + len then (Inl BufferOverrun, c)
           else
             let msg = header_bytes (word_of_nat len) @ data;
                 r = SendAll c msg
             in if fst r \<noteq> len + sizeof_header
                then (Inl (OdbcError S08S01_LINK_FAILURE
                        ''Can not send message due to connection failure''), snd r)
                else (Inr (), snd r))"

text \<open>\<open>std::vector::resize\<close>: cut, or fill up with zero bytes.\<close>

definition vector_resize :: "byte list \<Rightarrow> nat \<Rightarrow> byte list" where
  "vector_resize v n = take n v @ replicate (n - length v) 0"

text \<open>
  \<open>Receive\<close> returns the outcome, the caller's vector \<open>msg\<close> as the call leaves it, and
  the connection. The header is a local variable whose four bytes are all overwritten
  before it is read (it is read only when \<open>ReceiveAll\<close> returned 4); it starts as zeros
  here.
\<close>

definition Receive :: "'v connection \<Rightarrow> byte list \<Rightarrow> (exn + unit) \<times> byte list \<times> 'v connection" where
  "Receive c msg =
     (if \<not> connected c
      then (Inl (OdbcError S08003_NOT_CONNECTED ''Connection is not established''), msg, c)
      else
        let msg0 = [];
            (received, hdr, c1) = ReceiveAll c (replicate sizeof_header 0) sizeof_header
        in if received \<noteq> sizeof_header
           then (Inl (OdbcError S08S01_LINK_FAILURE ''Can not receive message header''), msg0, c1)
           else
             let hdr_len = header_len hdr
             in if sint hdr_len < 0
                then (Inl (OdbcError S08S01_LINK_FAILURE
                        ''Protocol error: Message length is negative''), msg0, Close c1)
                else if hdr_len = 0 then (Inr (), msg0, c1)
                else
                  let msg1 = vector_resize msg0 (nat (sint hdr_len));
                      (received2, msg2, c2) = ReceiveAll c1 msg1 (nat (sint hdr_len))
                  in if received2 \<noteq> nat (sint hdr_len)
                     then (Inl (OdbcError S08S01_LINK_FAILURE ''Can not receive message body''),
                           vector_resize msg2 received2, c2)
                     else (Inr (), msg2, c2))"

subsection \<open>Handshake\<close>

record 'v handshake_request =
  req_version :: 'v
  req_distributedJoins :: bool
  req_enforceJoinOrder :: bool
  req_replicatedOnly :: bool
  req_collocated :: bool
  req_lazy :: bool

record 'v handshake_response =
  IsAccepted :: bool
  GetError :: string
  GetCurrentVer :: 'v

text \<open>
  What \<open>MakeRequestHandshake\<close> uses and connection.cpp does not define is a parameter of
  the model: \<open>ProtocolVersion::IsSupported\<close> and \<open>ProtocolVersion::ToString\<close>, and the
  parser's \<open>Encode\<close> of a handshake request and \<open>Decode\<close> of a handshake response
  (which may throw).
\<close>

record 'v collaborators =
  IsSupported :: "'v \<Rightarrow> bool"
  ToString :: "'v \<Rightarrow> string"
  Encode :: "'v handshake_request \<Rightarrow> byte list"
  Decode :: "byte list \<Rightarrow> exn + 'v handshake_response"

text \<open>
  Modelled from the spec: \<open>SyncMessage\<close> is a template of the class header, which is not
  among the sources: send one frame, receive one frame, both through the parser
  (encode the request into a buffer, \<open>Send\<close> it, \<open>Receive\<close> into the same buffer,
  decode the response from it). An exception of any step leaves the call.
\<close>

definition SyncMessage ::
  "'v collaborators \<Rightarrow> 'v connection \<Rightarrow> 'v handshake_request
     \<Rightarrow> (exn + 'v handshake_response) \<times> 'v connection" where
  "SyncMessage env c req =
     (let tempBuffer = Encode env req
      in case Send c tempBuffer of
           (Inl e, c1) \<Rightarrow> (Inl e, c1)
         | (Inr _, c1) \<Rightarrow>
             (case Receive c1 tempBuffer of
                (Inl e, _, c2) \<Rightarrow> (Inl e, c2)
              | (Inr _, msg, c2) \<Rightarrow>
                  (case Decode env msg of
                     Inl e \<Rightarrow> (Inl e, c2)
                   | Inr rsp \<Rightarrow> (Inr rsp, c2))))"

text \<open>
  The \<open>try\<close> block that opens \<open>MakeRequestHandshake\<close>: the six getters in the order of
  the code; the first that throws ends the block with its text.
\<close>

definition read_handshake_params :: "'v configuration \<Rightarrow> string + 'v handshake_request" where
  "read_handshake_params cfg =
     (case GetProtocolVersion cfg of Inl e \<Rightarrow> Inl e | Inr protocolVersion \<Rightarrow>
      case IsDistributedJoins cfg of Inl e \<Rightarrow> Inl e | Inr distributedJoins \<Rightarrow>
      case IsEnforceJoinOrder cfg of Inl e \<Rightarrow> Inl e | Inr enforceJoinOrder \<Rightarrow>
      case IsReplicatedOnly cfg of Inl e \<Rightarrow> Inl e | Inr replicatedOnly \<Rightarrow>
      case IsCollocated cfg of Inl e \<Rightarrow> Inl e | Inr collocated \<Rightarrow>
      case IsLazy cfg of Inl e \<Rightarrow> Inl e | Inr lazy \<Rightarrow>
        Inr \<lparr>req_version = protocolVersion, req_distributedJoins = distributedJoins,
             req_enforceJoinOrder = enforceJoinOrder, req_replicatedOnly = replicatedOnly,
             req_collocated = collocated, req_lazy = lazy\<rparr>)"

text \<open>The text the \<open>stringstream\<close> collects when the node rejects the handshake.\<close>

definition rejection_message :: "string \<Rightarrow> string \<Rightarrow> string \<Rightarrow> string" where
  "rejection_message err currentVer driverVer =
     ''Node rejected handshake message. ''
     @ (if err \<noteq> [] then ''Additional info: '' @ err @ '' '' else [])
     @ ''Current node Apache Ignite version: '' @ currentVer @ '', ''
     @ ''driver protocol version introduced in version: '' @ driverVer @ ''.''"

text \<open>
  \<open>MakeRequestHandshake\<close> catches \<open>OdbcError\<close> and \<open>IgniteError\<close> around
  \<open>SyncMessage\<close>; any other exception leaves the function (\<open>Inl\<close>). The rejection text
  reads the protocol version from the configuration again, outside any \<open>try\<close>.
\<close>

definition MakeRequestHandshake ::
  "'v collaborators \<Rightarrow> 'v connection \<Rightarrow> (exn + sql_result) \<times> 'v connection" where
  "MakeRequestHandshake env c =
     (case read_handshake_params (config c) of
        Inl text \<Rightarrow>
          (Inr AI_ERROR, AddStatusRecord S01S00_INVALID_CONNECTION_STRING_ATTRIBUTE text c)
      | Inr req \<Rightarrow>
          if \<not> IsSupported env (req_version req)
          then (Inr AI_ERROR,
                AddStatusRecord S01S00_INVALID_CONNECTION_STRING_ATTRIBUTE
                  (''Protocol version is not supported: '' @ ToString env (req_version req)) c)
          else
            (case SyncMessage env c req of
               (Inl (OdbcError st m), c1) \<Rightarrow> (Inr AI_ERROR, AddStatusRecord st m c1)
             | (Inl (IgniteError t), c1) \<Rightarrow>
                 (Inr AI_ERROR, AddStatusRecord S08004_CONNECTION_REJECTED t c1)
             | (Inl e, c1) \<Rightarrow> (Inl e, c1)
             | (Inr rsp, c1) \<Rightarrow>
                 if \<not> IsAccepted rsp
                 then (case GetProtocolVersion (config c1) of
                         Inl t \<Rightarrow> (Inl (IgniteError t), c1)
                       | Inr v \<Rightarrow>
                           (Inr AI_ERROR,
                            AddStatusRecord S08004_CONNECTION_REJECTED
                              (rejection_message (GetError rsp)
                                 (ToString env (GetCurrentVer rsp)) (ToString env v)) c1))
                 else (Inr AI_SUCCESS, c1)))"

subsection \<open>The connection state machine\<close>

text \<open>
  \<open>InternalEstablish(cfg)\<close>: the configuration is stored first, then the \<open>connected\<close>
  flag is tested, then the socket connects and the handshake runs.
\<close>

definition InternalEstablish ::
  "'v collaborators \<Rightarrow> 'v connection \<Rightarrow> 'v configuration \<Rightarrow> (exn + sql_result) \<times> 'v connection" where
  "InternalEstablish env c cfg =
     (let c0 = c\<lparr>config := cfg\<rparr>
      in if connected c0
         then (Inr AI_ERROR, AddStatusRecord S08002_ALREADY_CONNECTED ''Already connected.'' c0)
         else
           let r = sock_Connect (socket c0) (GetHost cfg) (GetTcpPort cfg);
               c1 = c0\<lparr>socket := snd r, connected := fst r\<rparr>
           in if \<not> connected c1
              then (Inr AI_ERROR,
                    AddStatusRecord S08001_CANNOT_CONNECT
                      ''Failed to establish connection with the host.'' c1)
              else
                (case MakeRequestHandshake env c1 of
                   (Inl e, c2) \<Rightarrow> (Inl e, c2)
                 | (Inr res, c2) \<Rightarrow>
                     if res = AI_ERROR then (Inr res, Close c2)
                     else (case GetProtocolVersion (config c2) of
                             Inl t \<Rightarrow> (Inl (IgniteError t), c2)
                           | Inr v \<Rightarrow> (Inr res, c2\<lparr>parser_version := v\<rparr>))))"

definition InternalRelease :: "'v connection \<Rightarrow> sql_result \<times> 'v connection" where
  "InternalRelease c =
     (if \<not> connected c
      then (AI_ERROR, AddStatusRecord S08003_NOT_CONNECTED ''Connection is not open.'' c)
      else (AI_SUCCESS, Close c))"

definition InternalTransactionCommit :: "'v connection \<Rightarrow> sql_result \<times> 'v connection" where
  "InternalTransactionCommit c = (AI_SUCCESS, c)"

definition InternalTransactionRollback :: "'v connection \<Rightarrow> sql_result \<times> 'v connection" where
  "InternalTransactionRollback c =
     (AI_ERROR,
      AddStatusRecord SHYC00_OPTIONAL_FEATURE_NOT_IMPLEMENTED
        ''Rollback operation is not supported.'' c)"

subsection \<open>Connection attributes\<close>

text \<open>
  The constants of the ODBC headers (sqlext.h) that the attribute functions use.
\<close>

definition SQL_ATTR_CONNECTION_DEAD :: int where
  "SQL_ATTR_CONNECTION_DEAD = 1209"

definition SQL_CD_TRUE :: int32 where
  "SQL_CD_TRUE = 1"

definition SQL_CD_FALSE :: int32 where
  "SQL_CD_FALSE = 0"

definition SQL_IS_INTEGER :: int32 where
  "SQL_IS_INTEGER = - 6"

text \<open>
  \<open>buf\<close> and \<open>valueLen\<close> are pointers: \<open>None\<close> is the null pointer, \<open>Some v\<close> a pointer
  to a cell that holds \<open>v\<close>. The function returns the result code, the two cells as the
  call leaves them, and the connection.
\<close>

definition InternalGetAttribute ::
  "'v connection \<Rightarrow> int \<Rightarrow> int32 option \<Rightarrow> int32 option
     \<Rightarrow> sql_result \<times> int32 option \<times> int32 option \<times> 'v connection" where
  "InternalGetAttribute c attr buf valueLen =
     (if buf = None
      then (AI_ERROR, buf, valueLen, AddStatusRecord SHY000_GENERAL_ERROR ''Data buffer is NULL.'' c)
      else if attr = SQL_ATTR_CONNECTION_DEAD
      then (AI_SUCCESS,
            Some (if connected c then SQL_CD_FALSE else SQL_CD_TRUE),
            (if valueLen \<noteq> None then Some SQL_IS_INTEGER else valueLen),
            c)
      else (AI_ERROR, buf, valueLen,
            AddStatusRecord SHYC00_OPTIONAL_FEATURE_NOT_IMPLEMENTED
              ''Specified attribute is not supported.'' c))"

definition InternalSetAttribute ::
  "'v connection \<Rightarrow> int \<Rightarrow> 'a option \<Rightarrow> int32 \<Rightarrow> sql_result \<times> 'v connection" where
  "InternalSetAttribute c attr val valueLen =
     (if attr = SQL_ATTR_CONNECTION_DEAD
      then (AI_ERROR,
            AddStatusRecord SHY092_OPTION_TYPE_OUT_OF_RANGE ''Attribute is read only.'' c)
      else (AI_ERROR,
            AddStatusRecord SHYC00_OPTIONAL_FEATURE_NOT_IMPLEMENTED
              ''Specified attribute is not supported.'' c))"

subsection \<open>Concrete connections\<close>

text \<open>
  A node that accepts connections, a configuration for it, and a connected connection
  over a socket that transfers everything in one go. Versions are printed strings here;
  the example parser encodes a request as one byte and reads the acceptance flag of a
  response from its first byte.
\<close>

definition example_socket :: socket_client where
  "example_socket =
     \<lparr>is_open = True, reachable = [(''node'', 10800)], tx_script = [], wire_out = [],
      rx_script = [], wire_in = []\<rparr>"

definition example_config :: "string configuration" where
  "example_config =
     \<lparr>GetHost = ''node'', GetTcpPort = 10800, GetSchema = ''PUBLIC'',
      GetProtocolVersion = Inr ''1.0.0'',
      IsDistributedJoins = Inr False, IsEnforceJoinOrder = Inr False,
      IsReplicatedOnly = Inr False, IsCollocated = Inr False, IsLazy = Inr False\<rparr>"

definition example_connection :: "string connection" where
  "example_connection =
     \<lparr>socket = example_socket, connected = True, parser_version = ''1.0.0'',
      config = example_config, diagnostics = []\<rparr>"

definition example_env :: "string collaborators" where
  "example_env =
     \<lparr>IsSupported = (\<lambda>v. v = ''1.0.0''),
      ToString = (\<lambda>v. v),
      Encode = (\<lambda>req. [1]),
      Decode = (\<lambda>msg. case msg of
                  [] \<Rightarrow> Inl (IgniteError ''Empty response'')
                | b # _ \<Rightarrow> Inr \<lparr>IsAccepted = (b \<noteq> 0), GetError = ''incompatible'',
                                 GetCurrentVer = ''2.0.0''\<rparr>)\<rparr>"

text \<open>
  The same connection with given bytes waiting on the wire and a given receive script,
  and with a given send script.
\<close>

definition connection_reading :: "byte list \<Rightarrow> int list \<Rightarrow> string connection" where
  "connection_reading w rs =
     example_connection\<lparr>socket := example_socket\<lparr>wire_in := w, rx_script := rs\<rparr>\<rparr>"

definition connection_writing :: "int list \<Rightarrow> string connection" where
  "connection_writing ts =
     example_connection\<lparr>socket := example_socket\<lparr>tx_script := ts\<rparr>\<rparr>"

text \<open>
  A connection that is not connected yet, with the bytes the node will answer with.
\<close>

definition disconnected_connection :: "byte list \<Rightarrow> string connection" where
  "disconnected_connection w =
     example_connection\<lparr>socket := example_socket\<lparr>is_open := False, wire_in := w\<rparr>,
                        connected := False\<rparr>"

section \<open>Properties\<close>

subsection \<open>Header, socket and transfer loops\<close>

declare SendAll_loop.simps [simp del]
declare ReceiveAll_loop.simps [simp del]

lemma header_len_header_bytes: "header_len (header_bytes w) = w"
proof (rule bit_word_eqI)
  fix n :: nat
  assume n: "n < LENGTH(32)"
  consider "n < 8" | "8 \<le> n" "n < 16" | "16 \<le> n" "n < 24" | "24 \<le> n" "n < 32"
    using n by fastforce
  then show "bit (header_len (header_bytes w)) n = bit w n"
    by cases (auto simp: header_bytes_def bit_simps)
qed

lemma length_header_bytes: "length (header_bytes w) = 4"
  by (simp add: header_bytes_def)

lemma sock_Send_facts:
  assumes "sock_Send s buf = (res, s')"
  shows "res \<le> int (length buf)"
    and "wire_out s' = wire_out s @ take (nat res) buf"
    and "wire_in s' = wire_in s" and "rx_script s' = rx_script s"
    and "is_open s' = is_open s" and "reachable s' = reachable s"
  using assms by (auto simp: sock_Send_def min_def split: list.splits if_splits)

lemma sock_Receive_facts:
  assumes "sock_Receive s n = (res, bytes, s')"
  shows "res \<le> int n" and "nat res \<le> length (wire_in s)"
    and "bytes = take (nat res) (wire_in s)"
    and "wire_in s' = drop (nat res) (wire_in s)"
    and "wire_out s' = wire_out s" and "tx_script s' = tx_script s"
    and "is_open s' = is_open s" and "reachable s' = reachable s"
  using assms by (auto simp: sock_Receive_def min_def split: list.splits if_splits)

lemma take_take_drop: "k \<le> m \<Longrightarrow> take k xs @ take (m - k) (drop k xs) = take m xs"
  by (metis le_add_diff_inverse take_add)

lemma SendAll_loop_result:
  assumes "SendAll_loop c data sent = (n, c')" and "sent \<le> length data"
  shows "sent \<le> n \<and> n \<le> length data
    \<and> wire_out (socket c') = wire_out (socket c) @ take (n - sent) (drop sent data)
    \<and> (n \<noteq> length data \<longrightarrow> \<not> connected c' \<and> \<not> is_open (socket c'))
    \<and> (n = length data \<longrightarrow> connected c' = connected c \<and> is_open (socket c') = is_open (socket c))
    \<and> wire_in (socket c') = wire_in (socket c) \<and> rx_script (socket c') = rx_script (socket c)
    \<and> reachable (socket c') = reachable (socket c)
    \<and> config c' = config c \<and> diagnostics c' = diagnostics c
    \<and> parser_version c' = parser_version c"
  using assms
proof (induction c data sent arbitrary: n c' rule: SendAll_loop.induct)
  case (1 c data sent)
  show ?case
  proof (cases "sent = length data")
    case True
    with "1.prems" show ?thesis by (simp add: SendAll_loop.simps)
  next
    case False
    obtain res s1 where r: "sock_Send (socket c) (drop sent data) = (res, s1)"
      by (cases "sock_Send (socket c) (drop sent data)")
    note f = sock_Send_facts [OF r]
    show ?thesis
    proof (cases "res \<le> 0")
      case True
      with False r "1.prems" have "n = sent" "c' = Close (c\<lparr>socket := s1\<rparr>)"
        by (simp_all add: SendAll_loop.simps [of c data sent])
      with False True f "1.prems"(2) show ?thesis
        by (simp add: Close_def sock_Close_def)
    next
      case pos: False
      let ?k = "nat res"
      have k: "0 < ?k" "?k \<le> length data - sent" using pos f(1) by simp_all
      have call: "SendAll_loop (c\<lparr>socket := s1\<rparr>) data (sent + ?k) = (n, c')"
        using False pos r "1.prems"(1) by (simp add: SendAll_loop.simps [of c data sent])
      have le: "sent + ?k \<le> length data" using k "1.prems"(2) False by simp
      note ih = "1.IH" [OF False refl refl refl, unfolded r fst_conv snd_conv, OF pos call le]
      have "take ?k (drop sent data) @ take (n - (sent + ?k)) (drop (sent + ?k) data)
          = take (n - sent) (drop sent data)"
      proof -
        have "take ?k (drop sent data) @ take ((n - sent) - ?k) (drop ?k (drop sent data))
            = take (n - sent) (drop sent data)"
          using ih by (intro take_take_drop) linarith
        then show ?thesis by (simp add: add.commute)
      qed
      with ih f k show ?thesis by simp
    qed
  qed
qed

lemma ReceiveAll_loop_result:
  assumes "ReceiveAll_loop c buffer len remain = (n, buf', c')"
    and "remain \<le> len" and "len \<le> length buffer"
  shows "len - remain \<le> n \<and> n \<le> len
    \<and> buf' = take (len - remain) buffer @ take (n - (len - remain)) (wire_in (socket c)) @ drop n buffer
    \<and> wire_in (socket c') = drop (n - (len - remain)) (wire_in (socket c))
    \<and> n - (len - remain) \<le> length (wire_in (socket c))
    \<and> (n \<noteq> len \<longrightarrow> \<not> connected c' \<and> \<not> is_open (socket c'))
    \<and> (n = len \<longrightarrow> connected c' = connected c \<and> is_open (socket c') = is_open (socket c))
    \<and> wire_out (socket c') = wire_out (socket c) \<and> tx_script (socket c') = tx_script (socket c)
    \<and> reachable (socket c') = reachable (socket c)
    \<and> config c' = config c \<and> diagnostics c' = diagnostics c
    \<and> parser_version c' = parser_version c"
  using assms
proof (induction c buffer len remain arbitrary: n buf' c' rule: ReceiveAll_loop.induct)
  case (1 c buffer len remain)
  show ?case
  proof (cases "remain = 0")
    case True
    with "1.prems" show ?thesis by (simp add: ReceiveAll_loop.simps)
  next
    case False
    let ?received = "len - remain"
    obtain res bytes s1 where r: "sock_Receive (socket c) remain = (res, bytes, s1)"
      by (cases "sock_Receive (socket c) remain")
    note f = sock_Receive_facts [OF r]
    show ?thesis
    proof (cases "res \<le> 0")
      case True
      with False r "1.prems" have "n = ?received" "buf' = buffer" "c' = Close (c\<lparr>socket := s1\<rparr>)"
        by (simp_all add: ReceiveAll_loop.simps [of c buffer len remain] Let_def)
      with False True f "1.prems"(2,3) show ?thesis
        by (auto simp: Close_def sock_Close_def)
    next
      case pos: False
      let ?k = "nat res"
      let ?W = "wire_in (socket c)"
      let ?B = "take ?received buffer @ bytes @ drop (?received + ?k) buffer"
      let ?c1 = "c\<lparr>socket := s1\<rparr>"
      have k: "0 < ?k" "?k \<le> remain" "?k \<le> length ?W" using pos f(1,2) by simp_all
      have lb: "length bytes = ?k" using f(3) k by simp
      have call: "ReceiveAll_loop ?c1 ?B len (remain - ?k) = (n, buf', c')"
        using False pos r "1.prems"(1) by (simp add: ReceiveAll_loop.simps [of c buffer len remain] Let_def)
      have le: "remain - ?k \<le> len" using "1.prems"(2) by simp
      have lenB: "len \<le> length ?B" using "1.prems"(2,3) k lb by simp
      have off: "len - (remain - ?k) = ?received + ?k" using k "1.prems"(2) by simp
      note ih = "1.IH" [OF False refl refl refl refl, unfolded r fst_conv snd_conv, OF pos call le lenB,
          unfolded off]
      from ih have n: "?received + ?k \<le> n" "n \<le> len" by blast+
      from ih have ib: "buf' = take (?received + ?k) ?B
          @ take (n - (?received + ?k)) (wire_in (socket ?c1)) @ drop n ?B" by blast
      from ih have iw: "wire_in (socket c') = drop (n - (?received + ?k)) (wire_in (socket ?c1))"
        by blast
      from ih have il: "n - (?received + ?k) \<le> length (wire_in (socket ?c1))" by blast
      from ih have ic: "n \<noteq> len \<longrightarrow> \<not> connected c' \<and> \<not> is_open (socket c')"
        "n = len \<longrightarrow> connected c' = connected ?c1 \<and> is_open (socket c') = is_open (socket ?c1)"
        by blast+
      from ih have ifr: "wire_out (socket c') = wire_out (socket ?c1)"
        "tx_script (socket c') = tx_script (socket ?c1)"
        "reachable (socket c') = reachable (socket ?c1)"
        "config c' = config ?c1" "diagnostics c' = diagnostics ?c1"
        "parser_version c' = parser_version ?c1" by blast+
      have w1: "wire_in (socket ?c1) = drop ?k ?W" using f(4) by simp
      have t1: "take (?received + ?k) ?B = take ?received buffer @ bytes"
        using lb "1.prems"(2,3) by simp
      have t2: "drop n ?B = drop n buffer"
      proof -
        have "length (take ?received buffer @ bytes) = ?received + ?k"
          using lb "1.prems"(2,3) by simp
        then have "drop n ?B = drop (n - (?received + ?k)) (drop (?received + ?k) buffer)"
          using n(1) by simp
        also have "\<dots> = drop n buffer" using n(1) by simp
        finally show ?thesis .
      qed
      have t3: "bytes @ take (n - (?received + ?k)) (drop ?k ?W) = take (n - ?received) ?W"
      proof -
        have "?k \<le> n - ?received" using n(1) by linarith
        then have "take ?k ?W @ take ((n - ?received) - ?k) (drop ?k ?W) = take (n - ?received) ?W"
          by (rule take_take_drop)
        moreover have "n - ?received - ?k = n - (?received + ?k)" by simp
        ultimately show ?thesis using f(3) by simp
      qed
      have t4: "drop (n - (?received + ?k)) (drop ?k ?W) = drop (n - ?received) ?W"
      proof -
        have "n - (?received + ?k) + ?k = n - ?received" using n(1) by linarith
        then show ?thesis by (simp only: drop_drop)
      qed
      have t5: "n - ?received \<le> length ?W"
      proof -
        have "n - (?received + ?k) \<le> length ?W - ?k" using il w1 by simp
        then show ?thesis using k(3) n(1) by linarith
      qed
      have b: "buf' = take ?received buffer @ take (n - ?received) ?W @ drop n buffer"
        unfolding ib t1 t2 w1 using t3 by simp
      have w: "wire_in (socket c') = drop (n - ?received) ?W"
        unfolding iw w1 t4 ..
      have n0: "?received \<le> n" using n(1) by linarith
      have fr: "wire_out (socket c') = wire_out (socket c)"
        "tx_script (socket c') = tx_script (socket c)"
        "reachable (socket c') = reachable (socket c)"
        "config c' = config c" "diagnostics c' = diagnostics c"
        "parser_version c' = parser_version c"
        using ifr f(5-8) by simp_all
      have cc: "n = len \<longrightarrow> connected c' = connected c \<and> is_open (socket c') = is_open (socket c)"
        using ic(2) f(7) by simp
      show ?thesis
        using n0 n(2) b w t5 ic(1) cc fr by blast
    qed
  qed
qed

lemma sock_Send_pos:
  assumes "sock_Send s buf = (res, s')" and "\<forall>r\<in>set (tx_script s). 0 < r" and "buf \<noteq> []"
  shows "0 < res" and "\<forall>r\<in>set (tx_script s'). 0 < r"
  using assms by (auto simp: sock_Send_def min_def split: list.splits if_splits)

lemma sock_Receive_pos:
  assumes "sock_Receive s n = (res, bytes, s')" and "\<forall>r\<in>set (rx_script s). 0 < r"
    and "0 < n" and "wire_in s \<noteq> []"
  shows "0 < res" and "\<forall>r\<in>set (rx_script s'). 0 < r"
  using assms by (auto simp: sock_Receive_def min_def split: list.splits if_splits)

lemma SendAll_loop_succeeds:
  assumes "\<forall>r\<in>set (tx_script (socket c)). 0 < r" and "sent \<le> length data"
  shows "fst (SendAll_loop c data sent) = length data"
  using assms
proof (induction c data sent rule: SendAll_loop.induct)
  case (1 c data sent)
  show ?case
  proof (cases "sent = length data")
    case True
    then show ?thesis by (simp add: SendAll_loop.simps)
  next
    case False
    obtain res s1 where r: "sock_Send (socket c) (drop sent data) = (res, s1)"
      by (cases "sock_Send (socket c) (drop sent data)")
    have ne: "drop sent data \<noteq> []" using False "1.prems"(2) by simp
    note p = sock_Send_pos [OF r "1.prems"(1) ne]
    have pos: "\<not> res \<le> 0" using p(1) by simp
    have le: "sent + nat res \<le> length data"
      using sock_Send_facts(1) [OF r] "1.prems"(2) by simp
    have scr: "\<forall>r\<in>set (tx_script (socket (c\<lparr>socket := s1\<rparr>))). 0 < r" using p(2) by simp
    note ih = "1.IH" [OF False refl refl refl, unfolded r fst_conv snd_conv, OF pos scr le]
    then show ?thesis
      using False pos r by (simp add: SendAll_loop.simps [of c data sent])
  qed
qed

lemma ReceiveAll_loop_succeeds:
  assumes "\<forall>r\<in>set (rx_script (socket c)). 0 < r"
    and "remain \<le> length (wire_in (socket c))"
  shows "fst (ReceiveAll_loop c buffer len remain) = len"
  using assms
proof (induction c buffer len remain rule: ReceiveAll_loop.induct)
  case (1 c buffer len remain)
  show ?case
  proof (cases "remain = 0")
    case True
    then show ?thesis by (simp add: ReceiveAll_loop.simps)
  next
    case False
    obtain res bytes s1 where r: "sock_Receive (socket c) remain = (res, bytes, s1)"
      by (cases "sock_Receive (socket c) remain")
    have ne: "wire_in (socket c) \<noteq> []" "0 < remain" using False "1.prems"(2) by auto
    note p = sock_Receive_pos [OF r "1.prems"(1) ne(2,1)]
    note f = sock_Receive_facts [OF r]
    have pos: "\<not> res \<le> 0" using p(1) by simp
    have scr: "\<forall>r\<in>set (rx_script (socket (c\<lparr>socket := s1\<rparr>))). 0 < r" using p(2) by simp
    have av: "remain - nat res \<le> length (wire_in (socket (c\<lparr>socket := s1\<rparr>)))"
      using f(4) "1.prems"(2) by simp
    note ih = "1.IH" [OF False refl refl refl refl, unfolded r fst_conv snd_conv, OF pos scr av]
    then show ?thesis
      using False pos r by (simp add: ReceiveAll_loop.simps [of c buffer len remain] Let_def)
  qed
qed

lemma ReceiveAll_result:
  assumes "ReceiveAll c dst len = (n, buf', c')" and "len \<le> length dst"
  shows "n \<le> len
    \<and> buf' = take n (wire_in (socket c)) @ drop n dst
    \<and> wire_in (socket c') = drop n (wire_in (socket c))
    \<and> n \<le> length (wire_in (socket c))
    \<and> (n \<noteq> len \<longrightarrow> \<not> connected c' \<and> \<not> is_open (socket c'))
    \<and> (n = len \<longrightarrow> connected c' = connected c \<and> is_open (socket c') = is_open (socket c))
    \<and> wire_out (socket c') = wire_out (socket c) \<and> tx_script (socket c') = tx_script (socket c)
    \<and> reachable (socket c') = reachable (socket c)
    \<and> config c' = config c \<and> diagnostics c' = diagnostics c
    \<and> parser_version c' = parser_version c"
  using ReceiveAll_loop_result [of c dst len len n buf' c'] assms
  by (simp add: ReceiveAll_def)

lemma header_read_result:
  assumes "ReceiveAll c (replicate sizeof_header 0) sizeof_header = (sizeof_header, hdr, c1)"
  shows "hdr = take sizeof_header (wire_in (socket c))"
    and "wire_in (socket c1) = drop sizeof_header (wire_in (socket c))"
    and "sizeof_header \<le> length (wire_in (socket c))"
    and "connected c1 = connected c"
    and "config c1 = config c" and "diagnostics c1 = diagnostics c"
    and "wire_out (socket c1) = wire_out (socket c)"
  using ReceiveAll_result [OF assms] by simp_all

subsection \<open>Receive\<close>

text \<open>
  Claim C5. A \<open>Receive\<close> on a connected connection whose header read returns all four
  bytes and whose header holds length 0 succeeds with an empty payload and does nothing
  more on the socket: the connection it returns is the one the header read left, and
  of the bytes on the wire exactly the four header bytes are gone.
\<close>

theorem Receive_zero_length_frame:
  assumes "connected c"
    and "ReceiveAll c (replicate sizeof_header 0) sizeof_header = (sizeof_header, hdr, c1)"
    and "header_len hdr = 0"
  shows "Receive c msg = (Inr (), [], c1)
    \<and> connected c1
    \<and> hdr = take sizeof_header (wire_in (socket c))
    \<and> wire_in (socket c1) = drop sizeof_header (wire_in (socket c))"
  using assms header_read_result [OF assms(2)]
  by (simp add: Receive_def)

theorem Receive_zero_length_frame_witness:
  "connected (connection_reading [0, 0, 0, 0, 9, 9] [1, 3])
   \<and> ReceiveAll (connection_reading [0, 0, 0, 0, 9, 9] [1, 3]) (replicate sizeof_header 0)
        sizeof_header = (sizeof_header, [0, 0, 0, 0], connection_reading [9, 9] [])
   \<and> header_len [0, 0, 0, 0] = 0
   \<and> Receive (connection_reading [0, 0, 0, 0, 9, 9] [1, 3]) [5, 5]
        = (Inr (), [], connection_reading [9, 9] [])"
proof -
  have h1: "connected (connection_reading [0, 0, 0, 0, 9, 9] [1, 3])"
    by code_simp
  have h2: "ReceiveAll (connection_reading [0, 0, 0, 0, 9, 9] [1, 3]) (replicate sizeof_header 0)
        sizeof_header = (sizeof_header, [0, 0, 0, 0], connection_reading [9, 9] [])"
    by code_simp
  have h3: "header_len [0, 0, 0, 0] = 0"
    by simp
  from Receive_zero_length_frame [OF h1 h2 h3, of "[5, 5]"] h1 h2 h3 show ?thesis
    by blast
qed

text \<open>
  Claim C10. \<open>Receive\<close> on a connected connection clears the caller's vector before it
  reads from the socket: whatever the vector held, when the header read comes back short
  or the header holds length 0, the vector is empty after the call.
\<close>

theorem Receive_clears_output:
  assumes "connected c"
    and "ReceiveAll c (replicate sizeof_header 0) sizeof_header = (received, hdr, c1)"
    and "received \<noteq> sizeof_header \<or> header_len hdr = 0"
  shows "fst (snd (Receive c msg)) = []"
  using assms by (auto simp: Receive_def)

theorem Receive_clears_output_witness:
  "connected (connection_reading [1, 2] [])
   \<and> ReceiveAll (connection_reading [1, 2] []) (replicate sizeof_header 0) sizeof_header
        = (2, [1, 2, 0, 0], Close (connection_reading [] []))
   \<and> 2 \<noteq> sizeof_header
   \<and> fst (snd (Receive (connection_reading [1, 2] []) [5, 5])) = []"
proof -
  have h1: "connected (connection_reading [1, 2] [])"
    by code_simp
  have h2: "ReceiveAll (connection_reading [1, 2] []) (replicate sizeof_header 0) sizeof_header
        = (2, [1, 2, 0, 0], Close (connection_reading [] []))"
    by code_simp
  have h3: "2 \<noteq> sizeof_header"
    by (simp add: sizeof_header_def)
  from Receive_clears_output [OF h1 h2 disjI1 [OF h3], of "[5, 5]"] h1 h2 h3 show ?thesis
    by blast
qed

text \<open>
  Claim C4. A \<open>Receive\<close> on a connected connection that reads a header whose signed
  32-bit length is negative closes the connection and throws the link failure; the
  \<open>connected\<close> flag is false afterwards and no body byte is read: the connection
  returned is the one the header read left, closed, with only the four header bytes
  gone from the wire.
\<close>

theorem Receive_negative_length:
  assumes "connected c"
    and "ReceiveAll c (replicate sizeof_header 0) sizeof_header = (sizeof_header, hdr, c1)"
    and "sint (header_len hdr) < 0"
  shows "Receive c msg =
      (Inl (OdbcError S08S01_LINK_FAILURE ''Protocol error: Message length is negative''),
       [], Close c1)
    \<and> \<not> connected (Close c1) \<and> \<not> is_open (socket (Close c1))
    \<and> wire_in (socket (Close c1)) = drop sizeof_header (wire_in (socket c))
    \<and> rx_script (socket (Close c1)) = rx_script (socket c1)"
  using assms header_read_result [OF assms(2)]
  by (simp add: Receive_def Close_def sock_Close_def)

theorem Receive_negative_length_witness:
  "connected (connection_reading [255, 255, 255, 255, 7, 7] [])
   \<and> ReceiveAll (connection_reading [255, 255, 255, 255, 7, 7] []) (replicate sizeof_header 0)
        sizeof_header = (sizeof_header, [255, 255, 255, 255], connection_reading [7, 7] [])
   \<and> sint (header_len [255, 255, 255, 255]) < 0
   \<and> Receive (connection_reading [255, 255, 255, 255, 7, 7] []) [5]
        = (Inl (OdbcError S08S01_LINK_FAILURE ''Protocol error: Message length is negative''),
           [], Close (connection_reading [7, 7] []))
   \<and> \<not> connected (Close (connection_reading [7, 7] []))"
proof -
  have h1: "connected (connection_reading [255, 255, 255, 255, 7, 7] [])"
    by code_simp
  have h2: "ReceiveAll (connection_reading [255, 255, 255, 255, 7, 7] [])
        (replicate sizeof_header 0) sizeof_header
        = (sizeof_header, [255, 255, 255, 255], connection_reading [7, 7] [])"
    by code_simp
  have h3: "sint (header_len [255, 255, 255, 255]) < 0"
    by simp
  from Receive_negative_length [OF h1 h2 h3, of "[5]"] h1 h2 h3 show ?thesis
    by blast
qed

lemma vector_resize_shrink:
  "n \<le> length ws \<Longrightarrow> vector_resize (take n ws @ zs) n = take n ws"
  by (simp add: vector_resize_def)

text \<open>
  Claim C3, as amended. A \<open>Receive\<close> on a connected connection whose body read
  returns fewer bytes than the header's length fails with the link failure and leaves
  the connection closed; the caller's vector is cut to the bytes that did arrive: it
  holds exactly the \<open>received\<close> body bytes that follow the header on the wire.
\<close>

theorem Receive_short_body:
  assumes "connected c"
    and "ReceiveAll c (replicate sizeof_header 0) sizeof_header = (sizeof_header, hdr, c1)"
    and "0 < sint (header_len hdr)"
    and "ReceiveAll c1 (vector_resize [] (nat (sint (header_len hdr))))
           (nat (sint (header_len hdr))) = (received, buf, c2)"
    and "received \<noteq> nat (sint (header_len hdr))"
  shows "Receive c msg =
      (Inl (OdbcError S08S01_LINK_FAILURE ''Can not receive message body''),
       take received (drop sizeof_header (wire_in (socket c))), c2)
    \<and> length (take received (drop sizeof_header (wire_in (socket c)))) = received
    \<and> received < nat (sint (header_len hdr))
    \<and> \<not> connected c2 \<and> \<not> is_open (socket c2)"
proof -
  let ?L = "nat (sint (header_len hdr))"
  note h = header_read_result [OF assms(2)]
  have len: "?L \<le> length (vector_resize [] ?L)" by (simp add: vector_resize_def)
  note b = ReceiveAll_result [OF assms(4) len]
  from b have b1: "received \<le> ?L" and b2: "received \<le> length (wire_in (socket c1))"
    and b3: "buf = take received (wire_in (socket c1)) @ drop received (vector_resize [] ?L)"
    and b4: "\<not> connected c2 \<and> \<not> is_open (socket c2)"
    using assms(5) by blast+
  have out: "vector_resize buf received = take received (wire_in (socket c1))"
    unfolding b3 using b2 by (rule vector_resize_shrink)
  have nz: "header_len hdr \<noteq> 0" using assms(3) by auto
  have "Receive c msg =
      (Inl (OdbcError S08S01_LINK_FAILURE ''Can not receive message body''),
       vector_resize buf received, c2)"
    using assms nz by (simp add: Receive_def)
  then show ?thesis
    using out h(2) b1 b2 b4 assms(5) by simp
qed

theorem Receive_short_body_witness:
  "connected (connection_reading [3, 0, 0, 0, 7] [])
   \<and> ReceiveAll (connection_reading [3, 0, 0, 0, 7] []) (replicate sizeof_header 0)
        sizeof_header = (sizeof_header, [3, 0, 0, 0], connection_reading [7] [])
   \<and> 0 < sint (header_len [3, 0, 0, 0])
   \<and> ReceiveAll (connection_reading [7] [])
        (vector_resize [] (nat (sint (header_len [3, 0, 0, 0]))))
        (nat (sint (header_len [3, 0, 0, 0]))) = (1, [7, 0, 0], Close (connection_reading [] []))
   \<and> 1 \<noteq> nat (sint (header_len [3, 0, 0, 0]))
   \<and> Receive (connection_reading [3, 0, 0, 0, 7] []) []
        = (Inl (OdbcError S08S01_LINK_FAILURE ''Can not receive message body''),
           take 1 (drop sizeof_header (wire_in (socket (connection_reading [3, 0, 0, 0, 7] [])))),
           Close (connection_reading [] []))"
proof -
  have h1: "connected (connection_reading [3, 0, 0, 0, 7] [])"
    by code_simp
  have h2: "ReceiveAll (connection_reading [3, 0, 0, 0, 7] []) (replicate sizeof_header 0)
        sizeof_header = (sizeof_header, [3, 0, 0, 0], connection_reading [7] [])"
    by code_simp
  have h3: "0 < sint (header_len [3, 0, 0, 0])"
    by simp
  have h4: "ReceiveAll (connection_reading [7] [])
        (vector_resize [] (nat (sint (header_len [3, 0, 0, 0]))))
        (nat (sint (header_len [3, 0, 0, 0]))) = (1, [7, 0, 0], Close (connection_reading [] []))"
    by code_simp
  have h5: "1 \<noteq> nat (sint (header_len [3, 0, 0, 0]))"
    by simp
  from Receive_short_body [OF h1 h2 h3 h4 h5, of "[]"] h1 h2 h3 h4 h5 show ?thesis
    by blast
qed

text \<open>
  Claim C3 as stated says that the partial bytes are discarded. With a header of length
  3 and one body byte 7 on the wire before the stream ends, \<open>msg.resize(received)\<close>
  leaves that byte in the caller's vector.
\<close>

theorem Receive_short_body_counterexample:
  "Receive (connection_reading [3, 0, 0, 0, 7] []) []
     = (Inl (OdbcError S08S01_LINK_FAILURE ''Can not receive message body''), [7],
        Close (connection_reading [] []))"
  by code_simp

subsection \<open>Send\<close>

lemma sint_of_nat_small: "n < 2 ^ 31 \<Longrightarrow> sint (word_of_nat n :: int32) = int n"
  by (simp add: signed_of_nat signed_take_bit_int_eq_self)

lemma SendAll_result:
  assumes "SendAll c data = (n, c')"
  shows "n \<le> length data
    \<and> wire_out (socket c') = wire_out (socket c) @ take n data
    \<and> (n \<noteq> length data \<longrightarrow> \<not> connected c' \<and> \<not> is_open (socket c'))
    \<and> (n = length data \<longrightarrow> connected c' = connected c \<and> is_open (socket c') = is_open (socket c))
    \<and> wire_in (socket c') = wire_in (socket c) \<and> rx_script (socket c') = rx_script (socket c)
    \<and> reachable (socket c') = reachable (socket c)
    \<and> config c' = config c \<and> diagnostics c' = diagnostics c
    \<and> parser_version c' = parser_version c"
  using SendAll_loop_result [of c data 0 n c'] assms
  by (simp add: SendAll_def)

lemma Send_fits:
  assumes "connected c" and "length p + sizeof_header < 2 ^ 31"
    and "SendAll c (header_bytes (word_of_nat (length p)) @ p) = (sent, c1)"
  shows "Send c p =
    (if sent \<noteq> length p + sizeof_header
     then (Inl (OdbcError S08S01_LINK_FAILURE ''Can not send message due to connection failure''), c1)
     else (Inr (), c1))"
proof -
  have "sint (word_of_nat (length p + sizeof_header) :: int32) = int (length p + sizeof_header)"
    using assms(2) by (rule sint_of_nat_small)
  then show ?thesis
    using assms(1,3) by (simp add: Send_def Let_def)
qed

text \<open>
  Claim C6. A \<open>Send\<close> on a connected connection whose \<open>SendAll\<close> delivers fewer bytes
  than the header-plus-payload buffer fails with the link failure and leaves the
  connection closed, and any later \<open>Send\<close> on that connection fails with the
  not-connected error. \<open>SendAll\<close> is reached for payloads whose frame size fits a
  signed 32-bit integer.
\<close>

theorem Send_short_write:
  assumes "connected c" and "length p + sizeof_header < 2 ^ 31"
    and "SendAll c (header_bytes (word_of_nat (length p)) @ p) = (sent, c1)"
    and "sent \<noteq> length p + sizeof_header"
  shows "Send c p =
      (Inl (OdbcError S08S01_LINK_FAILURE ''Can not send message due to connection failure''), c1)
    \<and> \<not> connected c1 \<and> \<not> is_open (socket c1)
    \<and> Send c1 q = (Inl (OdbcError S08003_NOT_CONNECTED ''Connection is not established''), c1)"
proof -
  have s: "Send c p =
      (Inl (OdbcError S08S01_LINK_FAILURE ''Can not send message due to connection failure''), c1)"
    using Send_fits [OF assms(1-3)] assms(4) by simp
  have "length (header_bytes (word_of_nat (length p)) @ p) = length p + sizeof_header"
    by (simp add: length_header_bytes sizeof_header_def)
  with SendAll_result [OF assms(3)] assms(4)
  have closed: "\<not> connected c1" "\<not> is_open (socket c1)" by simp_all
  then have "Send c1 q = (Inl (OdbcError S08003_NOT_CONNECTED ''Connection is not established''), c1)"
    by (simp add: Send_def)
  with s closed show ?thesis by simp
qed

theorem Send_short_write_witness:
  "connected (connection_writing [2, 0])
   \<and> length [1, 2, 3 :: byte] + sizeof_header < 2 ^ 31
   \<and> SendAll (connection_writing [2, 0]) (header_bytes (word_of_nat (length [1, 2, 3 :: byte])) @ [1, 2, 3])
        = (2, Close (example_connection\<lparr>socket := example_socket\<lparr>wire_out := [3, 0]\<rparr>\<rparr>))
   \<and> 2 \<noteq> length [1, 2, 3 :: byte] + sizeof_header
   \<and> Send (connection_writing [2, 0]) [1, 2, 3]
        = (Inl (OdbcError S08S01_LINK_FAILURE ''Can not send message due to connection failure''),
           Close (example_connection\<lparr>socket := example_socket\<lparr>wire_out := [3, 0]\<rparr>\<rparr>))
   \<and> Send (Close (example_connection\<lparr>socket := example_socket\<lparr>wire_out := [3, 0]\<rparr>\<rparr>)) [9]
        = (Inl (OdbcError S08003_NOT_CONNECTED ''Connection is not established''),
           Close (example_connection\<lparr>socket := example_socket\<lparr>wire_out := [3, 0]\<rparr>\<rparr>))"
proof -
  have h1: "connected (connection_writing [2, 0])"
    by code_simp
  have h2: "length [1, 2, 3 :: byte] + sizeof_header < 2 ^ 31"
    by (simp add: sizeof_header_def)
  have h3: "SendAll (connection_writing [2, 0])
        (header_bytes (word_of_nat (length [1, 2, 3 :: byte])) @ [1, 2, 3])
        = (2, Close (example_connection\<lparr>socket := example_socket\<lparr>wire_out := [3, 0]\<rparr>\<rparr>))"
    by code_simp
  have h4: "2 \<noteq> length [1, 2, 3 :: byte] + sizeof_header"
    by (simp add: sizeof_header_def)
  from Send_short_write [OF h1 h2 h3 h4, of "[9]"] h1 h2 h3 h4 show ?thesis
    by blast
qed

subsection \<open>Framing round trip\<close>

lemma sock_Receive_script:
  "set (rx_script (snd (snd (sock_Receive s n)))) \<subseteq> set (rx_script s)"
  by (auto simp: sock_Receive_def split: list.splits)

lemma ReceiveAll_loop_script:
  "set (rx_script (socket (snd (snd (ReceiveAll_loop c buffer len remain)))))
     \<subseteq> set (rx_script (socket c))"
proof (induction c buffer len remain rule: ReceiveAll_loop.induct)
  case (1 c buffer len remain)
  show ?case
  proof (cases "remain = 0")
    case True
    then show ?thesis by (simp add: ReceiveAll_loop.simps)
  next
    case False
    obtain res bytes s1 where r: "sock_Receive (socket c) remain = (res, bytes, s1)"
      by (cases "sock_Receive (socket c) remain")
    have s1: "set (rx_script s1) \<subseteq> set (rx_script (socket c))"
      using sock_Receive_script [of "socket c" remain] r by simp
    show ?thesis
    proof (cases "res \<le> 0")
      case True
      with False r s1 show ?thesis
        by (simp add: ReceiveAll_loop.simps [of c buffer len remain] Let_def Close_def sock_Close_def)
    next
      case pos: False
      note ih = "1.IH" [OF False refl refl refl refl, unfolded r fst_conv snd_conv, OF pos]
      have "set (rx_script (socket (snd (snd (ReceiveAll_loop c buffer len remain)))))
          \<subseteq> set (rx_script s1)"
        using ih False pos r
        by (simp add: ReceiveAll_loop.simps [of c buffer len remain] Let_def)
      with s1 show ?thesis by blast
    qed
  qed
qed

lemma ReceiveAll_complete:
  assumes "\<forall>r\<in>set (rx_script (socket c)). 0 < r"
    and "wire_in (socket c) = bs @ rest" and "length dst = length bs"
  shows "\<exists>c'. ReceiveAll c dst (length bs) = (length bs, bs, c')
    \<and> connected c' = connected c \<and> wire_in (socket c') = rest
    \<and> (\<forall>r\<in>set (rx_script (socket c')). 0 < r)"
proof -
  obtain n buf c' where r: "ReceiveAll c dst (length bs) = (n, buf, c')"
    by (cases "ReceiveAll c dst (length bs)")
  have "fst (ReceiveAll c dst (length bs)) = length bs"
    unfolding ReceiveAll_def using assms(1,2) by (intro ReceiveAll_loop_succeeds) simp_all
  with r have n: "n = length bs" by simp
  have scr: "set (rx_script (socket c')) \<subseteq> set (rx_script (socket c))"
    using ReceiveAll_loop_script [of c dst "length bs" "length bs"] r
    by (simp add: ReceiveAll_def)
  have le: "length bs \<le> length dst" using assms(3) by simp
  from ReceiveAll_result [OF r le] n assms(2,3)
  have "buf = bs" "wire_in (socket c') = rest" "connected c' = connected c"
    by simp_all
  with r n scr assms(1) show ?thesis by blast
qed

lemma Receive_frame:
  assumes "connected d" and "\<forall>r\<in>set (rx_script (socket d)). 0 < r"
    and "wire_in (socket d) = header_bytes (word_of_nat (length p)) @ p @ rest"
    and "length p < 2 ^ 31"
  shows "\<exists>d'. Receive d msg = (Inr (), p, d') \<and> wire_in (socket d') = rest \<and> connected d'"
proof -
  let ?hb = "header_bytes (word_of_nat (length p))"
  have lhb: "length ?hb = sizeof_header" by (simp add: length_header_bytes sizeof_header_def)
  have "\<exists>c'. ReceiveAll d (replicate sizeof_header 0) (length ?hb) = (length ?hb, ?hb, c')
    \<and> connected c' = connected d \<and> wire_in (socket c') = p @ rest
    \<and> (\<forall>r\<in>set (rx_script (socket c')). 0 < r)"
    using assms(2,3) lhb by (intro ReceiveAll_complete) simp_all
  then obtain c1 where h: "ReceiveAll d (replicate sizeof_header 0) sizeof_header = (sizeof_header, ?hb, c1)"
    and c1: "connected c1" "wire_in (socket c1) = p @ rest" "\<forall>r\<in>set (rx_script (socket c1)). 0 < r"
    using lhb assms(1) by auto
  have hl: "header_len ?hb = word_of_nat (length p)" by (rule header_len_header_bytes)
  have sl: "sint (word_of_nat (length p) :: int32) = int (length p)"
    using assms(4) by (rule sint_of_nat_small)
  show ?thesis
  proof (cases "p = []")
    case True
    then show ?thesis
      using assms(1) h hl c1 by (simp add: Receive_def)
  next
    case False
    then have nz: "(word_of_nat (length p) :: int32) \<noteq> 0"
      using sl by auto
    have "\<exists>c'. ReceiveAll c1 (vector_resize [] (length p)) (length p) = (length p, p, c')
      \<and> connected c' = connected c1 \<and> wire_in (socket c') = rest
      \<and> (\<forall>r\<in>set (rx_script (socket c')). 0 < r)"
      using c1(2,3) by (intro ReceiveAll_complete) (simp_all add: vector_resize_def)
    then obtain c2 where b: "ReceiveAll c1 (vector_resize [] (length p)) (length p) = (length p, p, c2)"
      and c2: "connected c2" "wire_in (socket c2) = rest"
      using c1(1) by auto
    have "Receive d msg = (Inr (), p, c2)"
      using assms(1) h hl sl nz b by (simp add: Receive_def)
    with c2 show ?thesis by simp
  qed
qed

lemma Send_complete:
  assumes "connected c" and "length p + sizeof_header < 2 ^ 31"
    and "\<forall>r\<in>set (tx_script (socket c)). 0 < r"
  shows "\<exists>c'. Send c p = (Inr (), c') \<and> connected c'
    \<and> wire_out (socket c') = wire_out (socket c) @ header_bytes (word_of_nat (length p)) @ p"
proof -
  let ?msg = "header_bytes (word_of_nat (length p)) @ p"
  obtain sent c1 where r: "SendAll c ?msg = (sent, c1)" by (cases "SendAll c ?msg")
  have lm: "length ?msg = length p + sizeof_header"
    by (simp add: length_header_bytes sizeof_header_def)
  have "fst (SendAll c ?msg) = length ?msg"
    unfolding SendAll_def using assms(3) by (intro SendAll_loop_succeeds) simp_all
  with r lm have sent: "sent = length p + sizeof_header" by simp
  from SendAll_result [OF r] sent lm assms(1)
  have "connected c1" "wire_out (socket c1) = wire_out (socket c) @ ?msg" by simp_all
  moreover have "Send c p = (Inr (), c1)"
    using Send_fits [OF assms(1,2) r] sent by simp
  ultimately show ?thesis by blast
qed

text \<open>
  Claim C1, as amended. For every payload \<open>p\<close> whose frame size \<open>len(p) + 4\<close> fits a
  signed 32-bit integer (the empty payload included), over sockets whose single-shot
  calls do not fail: \<open>Send(p)\<close> on a connected connection succeeds and writes a four-byte
  header holding the signed 32-bit value \<open>len(p)\<close> followed by the payload bytes; and
  \<open>Receive\<close> on a connected connection whose socket input is the bytes that \<open>Send\<close>
  wrote (followed by anything) succeeds, yields exactly \<open>p\<close> and leaves what follows
  the frame on the wire.
\<close>

theorem framing_round_trip:
  assumes "connected c" and "length p + sizeof_header < 2 ^ 31"
    and "\<forall>r\<in>set (tx_script (socket c)). 0 < r"
    and "connected d" and "\<forall>r\<in>set (rx_script (socket d)). 0 < r"
    and "wire_in (socket d)
           = drop (length (wire_out (socket c))) (wire_out (socket (snd (Send c p)))) @ rest"
  shows "\<exists>c' d'. Send c p = (Inr (), c')
    \<and> wire_out (socket c') = wire_out (socket c) @ header_bytes (word_of_nat (length p)) @ p
    \<and> sint (word_of_nat (length p) :: int32) = int (length p)
    \<and> Receive d msg = (Inr (), p, d') \<and> wire_in (socket d') = rest"
proof -
  from Send_complete [OF assms(1-3)] obtain c' where s: "Send c p = (Inr (), c')"
    and w: "wire_out (socket c') = wire_out (socket c) @ header_bytes (word_of_nat (length p)) @ p"
    by blast
  have lp: "length p < 2 ^ 31" using assms(2) by simp
  have win: "wire_in (socket d) = header_bytes (word_of_nat (length p)) @ p @ rest"
    using assms(6) s w by simp
  from Receive_frame [OF assms(4,5) win lp, of msg] obtain d'
    where "Receive d msg = (Inr (), p, d')" "wire_in (socket d') = rest" by blast
  with s w sint_of_nat_small [OF lp] show ?thesis by blast
qed


theorem framing_round_trip_witness:
  "connected (connection_writing [2, 5])
   \<and> length [1, 2, 3 :: byte] + sizeof_header < 2 ^ 31
   \<and> connected (connection_reading [3, 0, 0, 0, 1, 2, 3, 9] [1, 2, 3])
   \<and> Send (connection_writing [2, 5]) [1, 2, 3]
        = (Inr (), example_connection\<lparr>socket := example_socket\<lparr>wire_out := [3, 0, 0, 0, 1, 2, 3]\<rparr>\<rparr>)
   \<and> Receive (connection_reading [3, 0, 0, 0, 1, 2, 3, 9] [1, 2, 3]) [5]
        = (Inr (), [1, 2, 3], connection_reading [9] [])"
proof -
  let ?c = "connection_writing [2, 5]"
  let ?d = "connection_reading [3, 0, 0, 0, 1, 2, 3, 9] [1, 2, 3]"
  have h1: "connected ?c"
    by code_simp
  have h2: "length [1, 2, 3 :: byte] + sizeof_header < 2 ^ 31"
    by (simp add: sizeof_header_def)
  have h3: "\<forall>r\<in>set (tx_script (socket ?c)). 0 < r"
    by (simp add: connection_writing_def example_connection_def)
  have h4: "connected ?d"
    by code_simp
  have h5: "\<forall>r\<in>set (rx_script (socket ?d)). 0 < r"
    by (simp add: connection_reading_def example_connection_def)
  have h6: "wire_in (socket ?d)
      = drop (length (wire_out (socket ?c))) (wire_out (socket (snd (Send ?c [1, 2, 3])))) @ [9]"
    by code_simp
  have e1: "snd (Send ?c [1, 2, 3])
      = example_connection\<lparr>socket := example_socket\<lparr>wire_out := [3, 0, 0, 0, 1, 2, 3]\<rparr>\<rparr>"
    by code_simp
  have e2: "snd (snd (Receive ?d [5])) = connection_reading [9] []"
    by code_simp
  from framing_round_trip [OF h1 h2 h3 h4 h5 h6, of "[5]"] obtain c' d'
    where "Send ?c [1, 2, 3] = (Inr (), c')" "Receive ?d [5] = (Inr (), [1, 2, 3], d')"
    by blast
  with e1 e2 h1 h2 h4 show ?thesis by simp
qed

text \<open>
  Claim C1 as stated ranges over every payload. For a payload of \<open>2 ^ 31\<close> bytes the
  size \<open>len + 4\<close> narrowed to \<open>int32_t\<close> is negative: \<open>Send\<close> leaves through the
  allocation of the frame buffer and writes nothing, a \<open>Receive\<close> of what was written
  fails with the link failure, and \<open>static_cast<int32_t>(len)\<close>, the header such a
  frame would carry, is \<open>- 2 ^ 31\<close>, not the payload length.
\<close>

theorem framing_round_trip_counterexample:
  "Send example_connection (replicate 2147483648 0) = (Inl BadAlloc, example_connection)
   \<and> wire_out (socket example_connection) = []
   \<and> fst (Receive (connection_reading (wire_out (socket example_connection)) []) [])
        = Inl (OdbcError S08S01_LINK_FAILURE ''Can not receive message header'')
   \<and> sint (word_of_nat (length (replicate 2147483648 (0 :: byte))) :: int32) = - 2147483648"
proof -
  have s: "Send example_connection (replicate 2147483648 0) = (Inl BadAlloc, example_connection)"
    by (simp add: Send_def example_connection_def sizeof_header_def)
  have w: "wire_out (socket example_connection) = []"
    by (simp add: example_connection_def example_socket_def)
  have r: "fst (Receive (connection_reading [] []) [])
      = Inl (OdbcError S08S01_LINK_FAILURE ''Can not receive message header'')"
    by code_simp
  have h: "sint (word_of_nat (length (replicate 2147483648 (0 :: byte))) :: int32) = - 2147483648"
    by simp
  from s w r h show ?thesis by simp
qed

subsection \<open>Handshake and establish\<close>

lemma Send_cases:
  assumes "Send c p = (r, c')"
  shows "c' = c \<or> c' = snd (SendAll c (header_bytes (word_of_nat (length p)) @ p))"
proof (cases "connected c")
  case False
  with assms show ?thesis by (simp add: Send_def)
next
  case True
  let ?newLen = "word_of_nat (length p + sizeof_header) :: int32"
  show ?thesis
  proof (cases "sint ?newLen < 0")
    case neg: True
    with True assms show ?thesis by (simp add: Send_def Let_def)
  next
    case nonneg: False
    show ?thesis
    proof (cases "nat (sint ?newLen) < sizeof_header + length p")
      case small: True
      with True nonneg assms show ?thesis by (simp add: Send_def Let_def)
    next
      case fits: False
      with True nonneg assms show ?thesis
        by (simp add: Send_def Let_def split: if_splits)
    qed
  qed
qed

lemma Send_preserves:
  assumes "Send c p = (r, c')"
  shows "config c' = config c \<and> diagnostics c' = diagnostics c
    \<and> parser_version c' = parser_version c"
proof -
  let ?msg = "header_bytes (word_of_nat (length p)) @ p"
  obtain n c1 where s: "SendAll c ?msg = (n, c1)" by (cases "SendAll c ?msg")
  note f = SendAll_result [OF s]
  from Send_cases [OF assms] s have "c' = c \<or> c' = c1" by simp
  with f show ?thesis by blast
qed


lemma Receive_cases:
  assumes "Receive c msg = (r, m, c')"
    and "ReceiveAll c (replicate sizeof_header 0) sizeof_header = (n, hdr, c1)"
    and "ReceiveAll c1 (vector_resize [] (nat (sint (header_len hdr)))) (nat (sint (header_len hdr)))
           = (n2, buf, c2)"
  shows "c' = c \<or> c' = c1 \<or> c' = Close c1 \<or> c' = c2"
proof (cases "connected c")
  case False
  with assms(1) show ?thesis by (simp add: Receive_def)
next
  case True
  show ?thesis
  proof (cases "n \<noteq> sizeof_header")
    case short: True
    with True assms(1,2) show ?thesis by (simp add: Receive_def)
  next
    case full: False
    show ?thesis
    proof (cases "sint (header_len hdr) < 0")
      case neg: True
      with True full assms(1,2) show ?thesis by (simp add: Receive_def)
    next
      case nonneg: False
      show ?thesis
      proof (cases "header_len hdr = 0")
        case zero: True
        with True full assms(1,2) show ?thesis by (simp add: Receive_def)
      next
        case nz: False
        with True full nonneg assms show ?thesis
          by (simp add: Receive_def split: if_splits)
      qed
    qed
  qed
qed

lemma Receive_preserves:
  assumes "Receive c msg = (r, m, c')"
  shows "config c' = config c \<and> diagnostics c' = diagnostics c
    \<and> parser_version c' = parser_version c"
proof -
  obtain n hdr c1 where h: "ReceiveAll c (replicate sizeof_header 0) sizeof_header = (n, hdr, c1)"
    by (cases "ReceiveAll c (replicate sizeof_header 0) sizeof_header") auto
  let ?L = "nat (sint (header_len hdr))"
  obtain n2 buf c2 where b: "ReceiveAll c1 (vector_resize [] ?L) ?L = (n2, buf, c2)"
    by (cases "ReceiveAll c1 (vector_resize [] ?L) ?L") auto
  have f1: "config c1 = config c \<and> diagnostics c1 = diagnostics c
      \<and> parser_version c1 = parser_version c"
    using ReceiveAll_result [OF h] by simp
  have f2: "config c2 = config c1 \<and> diagnostics c2 = diagnostics c1
      \<and> parser_version c2 = parser_version c1"
    using ReceiveAll_result [OF b] by (simp add: vector_resize_def)
  have f3: "config (Close c1) = config c1 \<and> diagnostics (Close c1) = diagnostics c1
      \<and> parser_version (Close c1) = parser_version c1"
    by (simp add: Close_def)
  from Receive_cases [OF assms h b] f1 f2 f3 show ?thesis
    by (elim disjE) simp_all
qed


lemma SyncMessage_cases:
  assumes "SyncMessage env c req = (r, c')"
    and "Send c (Encode env req) = (r1, c1)"
    and "Receive c1 (Encode env req) = (r2, m, c2)"
  shows "c' = c1 \<or> c' = c2"
proof (cases r1)
  case (Inl e)
  with assms(1,2) show ?thesis by (simp add: SyncMessage_def)
next
  case sent: (Inr u)
  show ?thesis
  proof (cases r2)
    case (Inl e)
    with sent assms show ?thesis by (simp add: SyncMessage_def)
  next
    case (Inr u2)
    with sent assms show ?thesis
      by (cases "Decode env m") (simp_all add: SyncMessage_def)
  qed
qed

lemma SyncMessage_preserves:
  assumes "SyncMessage env c req = (r, c')"
  shows "config c' = config c \<and> diagnostics c' = diagnostics c
    \<and> parser_version c' = parser_version c"
proof -
  obtain r1 c1 where s: "Send c (Encode env req) = (r1, c1)"
    by (cases "Send c (Encode env req)")
  obtain r2 m c2 where rc: "Receive c1 (Encode env req) = (r2, m, c2)"
    by (cases "Receive c1 (Encode env req)") auto
  note f1 = Send_preserves [OF s] and f2 = Receive_preserves [OF rc]
  from SyncMessage_cases [OF assms s rc] f1 f2 show ?thesis
    by (elim disjE) simp_all
qed

lemma read_handshake_params_version:
  assumes "read_handshake_params cfg = Inr req"
  shows "GetProtocolVersion cfg = Inr (req_version req)"
  using assms unfolding read_handshake_params_def
  by (simp split: sum.splits) auto

lemma sublist_rejection_message:
  shows "sublist currentVer (rejection_message err currentVer driverVer)"
    and "sublist driverVer (rejection_message err currentVer driverVer)"
    and "err \<noteq> [] \<Longrightarrow> sublist err (rejection_message err currentVer driverVer)"
proof -
  let ?a = "''Node rejected handshake message. ''
     @ (if err \<noteq> [] then ''Additional info: '' @ err @ '' '' else [])
     @ ''Current node Apache Ignite version: ''"
  have "rejection_message err currentVer driverVer
      = ?a @ currentVer @ ('', '' @ ''driver protocol version introduced in version: ''
          @ driverVer @ ''.'')"
    by (simp add: rejection_message_def)
  then show "sublist currentVer (rejection_message err currentVer driverVer)"
    by (simp only: sublist_appendI)
  have "rejection_message err currentVer driverVer
      = (?a @ currentVer @ '', '' @ ''driver protocol version introduced in version: '')
          @ driverVer @ ''.''"
    by (simp add: rejection_message_def)
  then show "sublist driverVer (rejection_message err currentVer driverVer)"
    by (simp only: sublist_appendI)
  assume "err \<noteq> []"
  then have "rejection_message err currentVer driverVer
      = (''Node rejected handshake message. '' @ ''Additional info: '') @ err @ ('' ''
          @ ''Current node Apache Ignite version: '' @ currentVer @ '', ''
          @ ''driver protocol version introduced in version: '' @ driverVer @ ''.'')"
    by (simp add: rejection_message_def)
  then show "sublist err (rejection_message err currentVer driverVer)"
    by (simp only: sublist_appendI)
qed

lemma MakeRequestHandshake_rejected_aux:
  assumes "read_handshake_params (config c1) = Inr req"
    and "IsSupported env (req_version req)"
    and "SyncMessage env c1 req = (Inr rsp, c2)"
    and "\<not> IsAccepted rsp"
    and "GetProtocolVersion (config c2) = Inr v"
  shows "MakeRequestHandshake env c1
      = (Inr AI_ERROR, AddStatusRecord S08004_CONNECTION_REJECTED
           (rejection_message (GetError rsp) (ToString env (GetCurrentVer rsp)) (ToString env v)) c2)"
  using assms by (simp add: MakeRequestHandshake_def)


lemma MakeRequestHandshake_rejected:
  assumes "read_handshake_params (config c1) = Inr req"
    and "IsSupported env (req_version req)"
    and "SyncMessage env c1 req = (Inr rsp, c2)"
    and "\<not> IsAccepted rsp"
  shows "MakeRequestHandshake env c1
      = (Inr AI_ERROR, AddStatusRecord S08004_CONNECTION_REJECTED
           (rejection_message (GetError rsp) (ToString env (GetCurrentVer rsp))
              (ToString env (req_version req))) c2)"
proof -
  have "GetProtocolVersion (config c2) = Inr (req_version req)"
    using SyncMessage_preserves [OF assms(3)] read_handshake_params_version [OF assms(1)]
    by simp
  with assms show ?thesis by (rule MakeRequestHandshake_rejected_aux)
qed

lemma InternalEstablish_connects:
  assumes "\<not> connected c"
    and "(GetHost cfg, GetTcpPort cfg) \<in> set (reachable (socket c))"
  shows "InternalEstablish env c cfg =
    (case MakeRequestHandshake env
            (c\<lparr>config := cfg, socket := (socket c)\<lparr>is_open := True\<rparr>, connected := True\<rparr>) of
       (Inl e, c2) \<Rightarrow> (Inl e, c2)
     | (Inr res, c2) \<Rightarrow>
         if res = AI_ERROR then (Inr res, Close c2)
         else (case GetProtocolVersion (config c2) of
                 Inl t \<Rightarrow> (Inl (IgniteError t), c2)
               | Inr v \<Rightarrow> (Inr res, c2\<lparr>parser_version := v\<rparr>)))"
  using assms by (simp add: InternalEstablish_def sock_Connect_def Let_def)


text \<open>
  Claim C7. When the connection is not connected, the host accepts the connect, the
  configuration is readable and its version supported, and the handshake exchange
  returns a response that is not accepted, \<open>InternalEstablish\<close> (the body of
  \<open>Establish\<close>) returns the error result, closes the connection and appends one
  status record with state connection-rejected whose message contains the server's
  version string and the version string the driver attempted, and the server's error
  text when that is not empty.
\<close>

theorem handshake_rejection_message:
  assumes "\<not> connected c"
    and "(GetHost cfg, GetTcpPort cfg) \<in> set (reachable (socket c))"
    and "read_handshake_params cfg = Inr req"
    and "IsSupported env (req_version req)"
    and "SyncMessage env
           (c\<lparr>config := cfg, socket := (socket c)\<lparr>is_open := True\<rparr>, connected := True\<rparr>) req
           = (Inr rsp, c2)"
    and "\<not> IsAccepted rsp"
    and "m = rejection_message (GetError rsp) (ToString env (GetCurrentVer rsp))
               (ToString env (req_version req))"
  shows "InternalEstablish env c cfg
      = (Inr AI_ERROR, Close (AddStatusRecord S08004_CONNECTION_REJECTED m c2))
    \<and> diagnostics (Close (AddStatusRecord S08004_CONNECTION_REJECTED m c2))
        = diagnostics c @ [CreateStatusRecord S08004_CONNECTION_REJECTED m 0 0]
    \<and> \<not> connected (Close (AddStatusRecord S08004_CONNECTION_REJECTED m c2))
    \<and> sublist (ToString env (GetCurrentVer rsp)) m
    \<and> sublist (ToString env (req_version req)) m
    \<and> (GetError rsp \<noteq> [] \<longrightarrow> sublist (GetError rsp) m)"
proof -
  let ?c1 = "c\<lparr>config := cfg, socket := (socket c)\<lparr>is_open := True\<rparr>, connected := True\<rparr>"
  have cfg1: "read_handshake_params (config ?c1) = Inr req" using assms(3) by simp
  have hs: "MakeRequestHandshake env ?c1
      = (Inr AI_ERROR, AddStatusRecord S08004_CONNECTION_REJECTED m c2)"
    unfolding assms(7) using cfg1 assms(4,5,6) by (rule MakeRequestHandshake_rejected)
  have est: "InternalEstablish env c cfg
      = (Inr AI_ERROR, Close (AddStatusRecord S08004_CONNECTION_REJECTED m c2))"
    unfolding InternalEstablish_connects [OF assms(1,2)] hs by simp
  have "diagnostics c2 = diagnostics ?c1"
    using SyncMessage_preserves [OF assms(5)] by blast
  then have d: "diagnostics (Close (AddStatusRecord S08004_CONNECTION_REJECTED m c2))
      = diagnostics c @ [CreateStatusRecord S08004_CONNECTION_REJECTED m 0 0]"
    by (simp add: Close_def AddStatusRecord_def)
  have nc: "\<not> connected (Close (AddStatusRecord S08004_CONNECTION_REJECTED m c2))"
    by (simp add: Close_def)
  have s1: "sublist (ToString env (GetCurrentVer rsp)) m"
    unfolding assms(7) by (rule sublist_rejection_message(1))
  have s2: "sublist (ToString env (req_version req)) m"
    unfolding assms(7) by (rule sublist_rejection_message(2))
  have s3: "GetError rsp \<noteq> [] \<longrightarrow> sublist (GetError rsp) m"
    unfolding assms(7) by (rule impI) (rule sublist_rejection_message(3))
  from est d nc s1 s2 s3 show ?thesis by (intro conjI)
qed

theorem handshake_rejection_message_witness:
  "\<not> connected (disconnected_connection [1, 0, 0, 0, 0])
   \<and> fst (InternalEstablish example_env (disconnected_connection [1, 0, 0, 0, 0]) example_config)
       = Inr AI_ERROR
   \<and> map rec_state (diagnostics (snd (InternalEstablish example_env
         (disconnected_connection [1, 0, 0, 0, 0]) example_config)))
       = [S08004_CONNECTION_REJECTED]
   \<and> map rec_message (diagnostics (snd (InternalEstablish example_env
         (disconnected_connection [1, 0, 0, 0, 0]) example_config)))
       = [rejection_message ''incompatible'' ''2.0.0'' ''1.0.0'']
   \<and> sublist ''2.0.0'' (rejection_message ''incompatible'' ''2.0.0'' ''1.0.0'')
   \<and> sublist ''1.0.0'' (rejection_message ''incompatible'' ''2.0.0'' ''1.0.0'')
   \<and> sublist ''incompatible'' (rejection_message ''incompatible'' ''2.0.0'' ''1.0.0'')"
proof -
  let ?c = "disconnected_connection [1, 0, 0, 0, 0]"
  let ?req = "\<lparr>req_version = ''1.0.0'', req_distributedJoins = False,
      req_enforceJoinOrder = False, req_replicatedOnly = False, req_collocated = False,
      req_lazy = False\<rparr>"
  let ?rsp = "\<lparr>IsAccepted = False, GetError = ''incompatible'', GetCurrentVer = ''2.0.0''\<rparr>"
  let ?c2 = "example_connection\<lparr>socket := example_socket\<lparr>wire_out := [1, 0, 0, 0, 1]\<rparr>\<rparr>"
  let ?m = "rejection_message ''incompatible'' ''2.0.0'' ''1.0.0''"
  have h1: "\<not> connected ?c"
    by code_simp
  have h2: "(GetHost example_config, GetTcpPort example_config) \<in> set (reachable (socket ?c))"
    by code_simp
  have h3: "read_handshake_params example_config = Inr ?req"
    by code_simp
  have h4: "IsSupported example_env (req_version ?req)"
    by (simp add: example_env_def)
  have h5: "SyncMessage example_env
      (?c\<lparr>config := example_config, socket := (socket ?c)\<lparr>is_open := True\<rparr>,
          connected := True\<rparr>) ?req = (Inr ?rsp, ?c2)"
    by code_simp
  have h6: "\<not> IsAccepted ?rsp"
    by simp
  have h7: "?m = rejection_message (GetError ?rsp) (ToString example_env (GetCurrentVer ?rsp))
      (ToString example_env (req_version ?req))"
    by (simp add: example_env_def)
  note t = handshake_rejection_message [OF h1 h2 h3 h4 h5 h6 h7]
  have d0: "diagnostics ?c = []"
    by code_simp
  from t have e: "InternalEstablish example_env ?c example_config
      = (Inr AI_ERROR, Close (AddStatusRecord S08004_CONNECTION_REJECTED ?m ?c2))"
    by (rule conjunct1)
  from t have d: "diagnostics (Close (AddStatusRecord S08004_CONNECTION_REJECTED ?m ?c2))
      = diagnostics ?c @ [CreateStatusRecord S08004_CONNECTION_REJECTED ?m 0 0]"
    by blast
  from t have s: "sublist ''2.0.0'' ?m" "sublist ''1.0.0'' ?m" "sublist ''incompatible'' ?m"
    by (simp_all add: example_env_def)
  show ?thesis
    unfolding e using h1 d d0 s by (simp add: CreateStatusRecord_def)
qed

lemma MakeRequestHandshake_unsupported:
  assumes "GetProtocolVersion (config c1) = Inr v" and "\<not> IsSupported env v"
  shows "\<exists>m. MakeRequestHandshake env c1
      = (Inr AI_ERROR, AddStatusRecord S01S00_INVALID_CONNECTION_STRING_ATTRIBUTE m c1)
    \<and> ((\<exists>req. read_handshake_params (config c1) = Inr req)
          \<longrightarrow> m = ''Protocol version is not supported: '' @ ToString env v)"
proof (cases "read_handshake_params (config c1)")
  case (Inl e)
  then have "MakeRequestHandshake env c1
      = (Inr AI_ERROR, AddStatusRecord S01S00_INVALID_CONNECTION_STRING_ATTRIBUTE e c1)"
    by (simp add: MakeRequestHandshake_def)
  with Inl show ?thesis by auto
next
  case (Inr req)
  have "req_version req = v"
    using read_handshake_params_version [OF Inr] assms(1) by simp
  with Inr assms(2) have "MakeRequestHandshake env c1
      = (Inr AI_ERROR, AddStatusRecord S01S00_INVALID_CONNECTION_STRING_ATTRIBUTE
           (''Protocol version is not supported: '' @ ToString env v) c1)"
    by (simp add: MakeRequestHandshake_def)
  then show ?thesis by blast
qed

lemma InternalEstablish_connected:
  assumes "connected c"
  shows "InternalEstablish env c cfg
    = (Inr AI_ERROR, AddStatusRecord S08002_ALREADY_CONNECTED ''Already connected.'' (c\<lparr>config := cfg\<rparr>))"
  using assms by (simp add: InternalEstablish_def)

lemma InternalEstablish_unreachable:
  assumes "\<not> connected c" and "(GetHost cfg, GetTcpPort cfg) \<notin> set (reachable (socket c))"
  shows "InternalEstablish env c cfg
    = (Inr AI_ERROR,
       AddStatusRecord S08001_CANNOT_CONNECT ''Failed to establish connection with the host.''
         (c\<lparr>config := cfg, socket := (socket c)\<lparr>is_open := False\<rparr>, connected := False\<rparr>))"
  using assms by (simp add: InternalEstablish_def sock_Connect_def Let_def)

text \<open>
  Claim C8, as amended. For every configuration whose protocol version is readable and
  not supported, \<open>InternalEstablish\<close> (the body of \<open>Establish\<close>) returns the error
  result and sends nothing: the bytes written to the socket and the send script are as
  before. When the connection was not connected and the host accepts the connect, the
  connection ends not connected with one new status record, of state
  invalid-connection-string-attribute; and the message of that record names the
  unsupported version when the other handshake parameters are readable.
\<close>

theorem unsupported_protocol_version:
  assumes "GetProtocolVersion cfg = Inr v" and "\<not> IsSupported env v"
  shows "\<exists>c'. InternalEstablish env c cfg = (Inr AI_ERROR, c')
    \<and> wire_out (socket c') = wire_out (socket c)
    \<and> tx_script (socket c') = tx_script (socket c)
    \<and> (\<not> connected c \<and> (GetHost cfg, GetTcpPort cfg) \<in> set (reachable (socket c)) \<longrightarrow>
         \<not> connected c'
         \<and> (\<exists>m. diagnostics c'
                  = diagnostics c @ [CreateStatusRecord S01S00_INVALID_CONNECTION_STRING_ATTRIBUTE m 0 0]
              \<and> ((\<exists>req. read_handshake_params cfg = Inr req)
                    \<longrightarrow> m = ''Protocol version is not supported: '' @ ToString env v)))"
proof (cases "connected c")
  case True
  show ?thesis
    unfolding InternalEstablish_connected [OF True] using True
    by (simp add: AddStatusRecord_def)
next
  case False
  show ?thesis
  proof (cases "(GetHost cfg, GetTcpPort cfg) \<in> set (reachable (socket c))")
    case unreachable: False
    show ?thesis
      unfolding InternalEstablish_unreachable [OF False unreachable] using unreachable
      by (simp add: AddStatusRecord_def)
  next
    case True
    let ?c1 = "c\<lparr>config := cfg, socket := (socket c)\<lparr>is_open := True\<rparr>, connected := True\<rparr>"
    have v: "GetProtocolVersion (config ?c1) = Inr v" using assms(1) by simp
    from MakeRequestHandshake_unsupported [OF v assms(2)] obtain m
      where hs: "MakeRequestHandshake env ?c1
          = (Inr AI_ERROR, AddStatusRecord S01S00_INVALID_CONNECTION_STRING_ATTRIBUTE m ?c1)"
        and m: "(\<exists>req. read_handshake_params cfg = Inr req)
          \<longrightarrow> m = ''Protocol version is not supported: '' @ ToString env v"
      by auto
    let ?c' = "Close (AddStatusRecord S01S00_INVALID_CONNECTION_STRING_ATTRIBUTE m ?c1)"
    have est: "InternalEstablish env c cfg = (Inr AI_ERROR, ?c')"
      unfolding InternalEstablish_connects [OF False True] hs by simp
    have w: "wire_out (socket ?c') = wire_out (socket c)"
      "tx_script (socket ?c') = tx_script (socket c)" "\<not> connected ?c'"
      by (simp_all add: Close_def sock_Close_def AddStatusRecord_def)
    have d: "diagnostics ?c'
        = diagnostics c @ [CreateStatusRecord S01S00_INVALID_CONNECTION_STRING_ATTRIBUTE m 0 0]"
      by (simp add: Close_def AddStatusRecord_def)
    from est w d m show ?thesis by blast
  qed
qed

theorem unsupported_protocol_version_witness:
  "GetProtocolVersion (example_config\<lparr>GetProtocolVersion := Inr ''9.9.9''\<rparr>) = Inr ''9.9.9''
   \<and> \<not> IsSupported example_env ''9.9.9''
   \<and> \<not> connected (disconnected_connection [])
   \<and> fst (InternalEstablish example_env (disconnected_connection [])
            (example_config\<lparr>GetProtocolVersion := Inr ''9.9.9''\<rparr>)) = Inr AI_ERROR
   \<and> wire_out (socket (snd (InternalEstablish example_env (disconnected_connection [])
            (example_config\<lparr>GetProtocolVersion := Inr ''9.9.9''\<rparr>)))) = []
   \<and> diagnostics (snd (InternalEstablish example_env (disconnected_connection [])
            (example_config\<lparr>GetProtocolVersion := Inr ''9.9.9''\<rparr>)))
       = [CreateStatusRecord S01S00_INVALID_CONNECTION_STRING_ATTRIBUTE
            ''Protocol version is not supported: 9.9.9'' 0 0]"
proof -
  let ?cfg = "example_config\<lparr>GetProtocolVersion := Inr ''9.9.9''\<rparr>"
  let ?c = "disconnected_connection []"
  have h1: "GetProtocolVersion ?cfg = Inr ''9.9.9''"
    by simp
  have h2: "\<not> IsSupported example_env ''9.9.9''"
    by (simp add: example_env_def)
  have g1: "\<not> connected ?c"
    by code_simp
  have g2: "(GetHost ?cfg, GetTcpPort ?cfg) \<in> set (reachable (socket ?c))"
    by code_simp
  have g3: "\<exists>req. read_handshake_params ?cfg = Inr req"
    by (simp add: read_handshake_params_def example_config_def)
  have w0: "wire_out (socket ?c) = []" "diagnostics ?c = []"
    by code_simp+
  from unsupported_protocol_version [OF h1 h2, of ?c] g1 g2 g3 obtain c' where
    e: "InternalEstablish example_env ?c ?cfg = (Inr AI_ERROR, c')"
    and w: "wire_out (socket c') = wire_out (socket ?c)"
    and d: "diagnostics c' = diagnostics ?c
      @ [CreateStatusRecord S01S00_INVALID_CONNECTION_STRING_ATTRIBUTE
           (''Protocol version is not supported: '' @ ToString example_env ''9.9.9'') 0 0]"
    by blast
  have ts: "ToString example_env ''9.9.9'' = ''9.9.9''"
    by (simp add: example_env_def)
  show ?thesis
    unfolding e using h1 h2 g1 w d w0 ts by simp
qed

text \<open>
  Claim C8 as stated gives the invalid-connection-string-attribute state, with a message
  describing the version, for every configuration with an unsupported version. With
  such a version the code records already-connected on a connected connection,
  cannot-connect when the host refuses the connect, and the text of the failing getter
  when another handshake parameter cannot be read.
\<close>

theorem unsupported_protocol_version_counterexample:
  "\<not> IsSupported example_env ''9.9.9''
   \<and> connected example_connection
   \<and> diagnostics (snd (InternalEstablish example_env example_connection
         (example_config\<lparr>GetProtocolVersion := Inr ''9.9.9''\<rparr>)))
       = [CreateStatusRecord S08002_ALREADY_CONNECTED ''Already connected.'' 0 0]
   \<and> diagnostics (snd (InternalEstablish example_env (disconnected_connection [])
         (example_config\<lparr>GetHost := ''nowhere'', GetProtocolVersion := Inr ''9.9.9''\<rparr>)))
       = [CreateStatusRecord S08001_CANNOT_CONNECT
            ''Failed to establish connection with the host.'' 0 0]
   \<and> diagnostics (snd (InternalEstablish example_env (disconnected_connection [])
         (example_config\<lparr>GetProtocolVersion := Inr ''9.9.9'', IsLazy := Inl ''bad lazy''\<rparr>)))
       = [CreateStatusRecord S01S00_INVALID_CONNECTION_STRING_ATTRIBUTE ''bad lazy'' 0 0]"
proof -
  have a: "\<not> IsSupported example_env ''9.9.9''"
    by (simp add: example_env_def)
  have b: "connected example_connection"
    by (simp add: example_connection_def)
  have c: "diagnostics (snd (InternalEstablish example_env example_connection
         (example_config\<lparr>GetProtocolVersion := Inr ''9.9.9''\<rparr>)))
       = [CreateStatusRecord S08002_ALREADY_CONNECTED ''Already connected.'' 0 0]"
    by code_simp
  have d: "diagnostics (snd (InternalEstablish example_env (disconnected_connection [])
         (example_config\<lparr>GetHost := ''nowhere'', GetProtocolVersion := Inr ''9.9.9''\<rparr>)))
       = [CreateStatusRecord S08001_CANNOT_CONNECT
            ''Failed to establish connection with the host.'' 0 0]"
    by code_simp
  have e: "diagnostics (snd (InternalEstablish example_env (disconnected_connection [])
         (example_config\<lparr>GetProtocolVersion := Inr ''9.9.9'', IsLazy := Inl ''bad lazy''\<rparr>)))
       = [CreateStatusRecord S01S00_INVALID_CONNECTION_STRING_ATTRIBUTE ''bad lazy'' 0 0]"
    by code_simp
  from a b c d e show ?thesis by (intro conjI)
qed

text \<open>
  Claim C2, evaluated. \<open>InternalEstablish\<close> on a connected connection with another
  configuration returns the error result with the already-connected record and leaves
  the \<open>connected\<close> flag, the socket and the parser's protocol version as they were,
  but the stored configuration is the new one: \<open>config = cfg\<close> is executed before the
  \<open>connected\<close> test.
\<close>

theorem InternalEstablish_while_connected:
  "connected example_connection
   \<and> InternalEstablish example_env example_connection (example_config\<lparr>GetSchema := ''OTHER''\<rparr>)
       = (Inr AI_ERROR,
          AddStatusRecord S08002_ALREADY_CONNECTED ''Already connected.''
            (example_connection\<lparr>config := example_config\<lparr>GetSchema := ''OTHER''\<rparr>\<rparr>))
   \<and> GetSchema (config example_connection) = ''PUBLIC''
   \<and> GetSchema (config (snd (InternalEstablish example_env example_connection
          (example_config\<lparr>GetSchema := ''OTHER''\<rparr>)))) = ''OTHER''
   \<and> connected (snd (InternalEstablish example_env example_connection
          (example_config\<lparr>GetSchema := ''OTHER''\<rparr>)))
   \<and> socket (snd (InternalEstablish example_env example_connection
          (example_config\<lparr>GetSchema := ''OTHER''\<rparr>))) = socket example_connection
   \<and> parser_version (snd (InternalEstablish example_env example_connection
          (example_config\<lparr>GetSchema := ''OTHER''\<rparr>))) = parser_version example_connection"
proof -
  have c: "connected example_connection"
    by (simp add: example_connection_def)
  have s: "GetSchema (config example_connection) = ''PUBLIC''"
    by (simp add: example_connection_def example_config_def)
  show ?thesis
    unfolding InternalEstablish_connected [OF c] using c s
    by (simp add: AddStatusRecord_def)
qed

subsection \<open>Attributes\<close>

text \<open>
  Claim C9, as amended. For every value and connection state, \<open>InternalSetAttribute\<close>
  on the liveness attribute fails with option-type-out-of-range; any other attribute
  fails \<open>InternalSetAttribute\<close>, and \<open>InternalGetAttribute\<close> with a non-null buffer, with
  optional-feature-not-implemented; \<open>InternalGetAttribute\<close> on the liveness attribute
  with a non-null buffer while connected succeeds and stores \<open>SQL_CD_FALSE\<close> (alive);
  and with a null buffer \<open>InternalGetAttribute\<close> fails with the general error whatever
  the attribute.
\<close>

theorem attribute_results:
  "InternalSetAttribute c SQL_ATTR_CONNECTION_DEAD val valueLen
     = (AI_ERROR, AddStatusRecord SHY092_OPTION_TYPE_OUT_OF_RANGE ''Attribute is read only.'' c)
   \<and> (attr \<noteq> SQL_ATTR_CONNECTION_DEAD \<longrightarrow>
        InternalSetAttribute c attr val valueLen
          = (AI_ERROR, AddStatusRecord SHYC00_OPTIONAL_FEATURE_NOT_IMPLEMENTED
               ''Specified attribute is not supported.'' c)
        \<and> InternalGetAttribute c attr (Some b) vl
          = (AI_ERROR, Some b, vl, AddStatusRecord SHYC00_OPTIONAL_FEATURE_NOT_IMPLEMENTED
               ''Specified attribute is not supported.'' c))
   \<and> (connected c \<longrightarrow>
        InternalGetAttribute c SQL_ATTR_CONNECTION_DEAD (Some b) vl
          = (AI_SUCCESS, Some SQL_CD_FALSE,
             (if vl \<noteq> None then Some SQL_IS_INTEGER else None), c))
   \<and> InternalGetAttribute c attr None vl
        = (AI_ERROR, None, vl, AddStatusRecord SHY000_GENERAL_ERROR ''Data buffer is NULL.'' c)"
  by (simp add: InternalSetAttribute_def InternalGetAttribute_def)

theorem attribute_results_witness:
  "connected example_connection
   \<and> (0 :: int) \<noteq> SQL_ATTR_CONNECTION_DEAD
   \<and> InternalSetAttribute example_connection SQL_ATTR_CONNECTION_DEAD (Some (1 :: int32)) 4
       = (AI_ERROR,
          AddStatusRecord SHY092_OPTION_TYPE_OUT_OF_RANGE ''Attribute is read only.''
            example_connection)
   \<and> InternalSetAttribute example_connection 0 (Some (1 :: int32)) 4
       = (AI_ERROR,
          AddStatusRecord SHYC00_OPTIONAL_FEATURE_NOT_IMPLEMENTED
            ''Specified attribute is not supported.'' example_connection)
   \<and> InternalGetAttribute example_connection 0 (Some 7) None
       = (AI_ERROR, Some 7, None,
          AddStatusRecord SHYC00_OPTIONAL_FEATURE_NOT_IMPLEMENTED
            ''Specified attribute is not supported.'' example_connection)
   \<and> InternalGetAttribute example_connection SQL_ATTR_CONNECTION_DEAD (Some 7) (Some 0)
       = (AI_SUCCESS, Some SQL_CD_FALSE, Some SQL_IS_INTEGER, example_connection)"
proof -
  have h1: "connected example_connection"
    by (simp add: example_connection_def)
  have h2: "(0 :: int) \<noteq> SQL_ATTR_CONNECTION_DEAD"
    by (simp add: SQL_ATTR_CONNECTION_DEAD_def)
  from attribute_results [of example_connection "Some (1 :: int32)" 4 0 7 None] h2
  have a: "InternalSetAttribute example_connection SQL_ATTR_CONNECTION_DEAD (Some (1 :: int32)) 4
       = (AI_ERROR,
          AddStatusRecord SHY092_OPTION_TYPE_OUT_OF_RANGE ''Attribute is read only.''
            example_connection)"
    and b: "InternalSetAttribute example_connection 0 (Some (1 :: int32)) 4
       = (AI_ERROR,
          AddStatusRecord SHYC00_OPTIONAL_FEATURE_NOT_IMPLEMENTED
            ''Specified attribute is not supported.'' example_connection)"
    and c: "InternalGetAttribute example_connection 0 (Some 7) None
       = (AI_ERROR, Some 7, None,
          AddStatusRecord SHYC00_OPTIONAL_FEATURE_NOT_IMPLEMENTED
            ''Specified attribute is not supported.'' example_connection)"
    by blast+
  from attribute_results [of example_connection "Some (1 :: int32)" 4 0 7 "Some 0"] h1
  have d: "InternalGetAttribute example_connection SQL_ATTR_CONNECTION_DEAD (Some 7) (Some 0)
       = (AI_SUCCESS, Some SQL_CD_FALSE, Some SQL_IS_INTEGER, example_connection)"
    by simp
  from h1 h2 a b c d show ?thesis by (intro conjI)
qed

text \<open>
  Claim C9 as stated gives optional-feature-not-implemented for every other attribute
  and the alive value for the liveness attribute of a connected connection. With a null
  data buffer both calls fail with the general error instead: the null test comes first.
\<close>

theorem attribute_results_counterexample:
  "(0 :: int) \<noteq> SQL_ATTR_CONNECTION_DEAD
   \<and> InternalGetAttribute example_connection 0 None None
       = (AI_ERROR, None, None,
          AddStatusRecord SHY000_GENERAL_ERROR ''Data buffer is NULL.'' example_connection)
   \<and> connected example_connection
   \<and> InternalGetAttribute example_connection SQL_ATTR_CONNECTION_DEAD None None
       = (AI_ERROR, None, None,
          AddStatusRecord SHY000_GENERAL_ERROR ''Data buffer is NULL.'' example_connection)"
  by (simp add: InternalGetAttribute_def SQL_ATTR_CONNECTION_DEAD_def example_connection_def)

end
